theory Spec2Isabelle
  imports Complex_Main "HOL-Library.List_Lexorder" "HOL-Library.Char_ord" "HOL-Library.AList"
begin

section \<open>Python values, errors and strings\<close>

text \<open>
  The module \<^verbatim>\<open>glue_xp.py\<close> prepares data and metrics for fine-tuning on GLUE. Every
  exception the Python can raise is a value of \<open>error\<close>; a function that can raise returns
  \<open>error + 'a\<close> with \<open>Inl\<close> for the exception. Assertions are taken to be enabled (the
  interpreter's default).
\<close>

text \<open>
  The values a dataset cell, a label or a dict key can be. Two values are the same dict key
  when they are the same \<open>pyval\<close>; Python also identifies \<^verbatim>\<open>1\<close> and \<^verbatim>\<open>1.0\<close>, which
  never meet here since a column holds values of one type.
\<close>

datatype pyval = PInt int | PStr string | PFloat real

datatype error =
    ValueError string
  | AssertionError string
  | KeyError pyval
  | IndexError
  | AttributeError string
  | TypeError
  | UnboundLocalError string
  | AxisError
  | ExternalError string

text \<open>
  Strings are byte strings, taken to be ASCII. \<open>lower\<close> is \<^verbatim>\<open>str.lower\<close> on ASCII: the
  letters A to Z are mapped to a to z and every other byte is kept. Python lower-cases
  letters beyond ASCII too; the only such character whose lower case is an ASCII letter is
  the Kelvin sign (k), and no task name contains a k.
\<close>

definition lower_char :: "char \<Rightarrow> char" where
  "lower_char c =
     (if CHR ''A'' \<le> c \<and> c \<le> CHR ''Z'' then char_of (of_char c + (32::nat)) else c)"

definition lower :: "string \<Rightarrow> string" where
  "lower s = map lower_char s"

text \<open>\<^verbatim>\<open>s.split(sep)\<close> for a one-character separator: never an empty list.\<close>

fun split :: "char \<Rightarrow> string \<Rightarrow> string list" where
  "split sep [] = [[]]"
| "split sep (c # cs) =
     (if c = sep then [] # split sep cs
      else (case split sep cs of
              [] \<Rightarrow> [[c]]
            | w # ws \<Rightarrow> (c # w) # ws))"

text \<open>\<^verbatim>\<open>file.split(".")[-1]\<close>\<close>

definition extension :: "string \<Rightarrow> string" where
  "extension file = last (split CHR ''.'' file)"

definition endswith :: "string \<Rightarrow> string \<Rightarrow> bool" where
  "endswith s suffix =
     (length suffix \<le> length s \<and> drop (length s - length suffix) s = suffix)"

text \<open>\<^verbatim>\<open>sep.join(xs)\<close>\<close>

fun join :: "string \<Rightarrow> string list \<Rightarrow> string" where
  "join sep [] = []"
| "join sep [x] = x"
| "join sep (x # y # ys) = x @ sep @ join sep (y # ys)"

section \<open>The task table\<close>

text \<open>The dict \<^verbatim>\<open>task_to_keys\<close>, in insertion order.\<close>

definition task_to_keys :: "(string \<times> (string \<times> string option)) list" where
  "task_to_keys =
     [(''cola'', (''sentence'', None)),
      (''mnli'', (''premise'', Some ''hypothesis'')),
      (''mrpc'', (''sentence1'', Some ''sentence2'')),
      (''qnli'', (''question'', Some ''sentence'')),
      (''qqp'', (''question1'', Some ''question2'')),
      (''rte'', (''sentence1'', Some ''sentence2'')),
      (''sst2'', (''sentence'', None)),
      (''stsb'', (''sentence1'', Some ''sentence2'')),
      (''wnli'', (''sentence1'', Some ''sentence2''))]"

section \<open>Configuration validation\<close>

text \<open>
  \<^verbatim>\<open>GlueDataTrainingArguments\<close>: the two fields declared here and the fields of the base
  class \<^verbatim>\<open>DataTrainingArguments\<close> that this module reads.
\<close>

record data_args =
  task_name :: "string option"
  max_seq_length :: int
  train_file :: "string option"
  validation_file :: "string option"
  pad_to_max_length :: bool
  overwrite_cache :: bool

definition post_init :: "data_args \<Rightarrow> error + data_args" where
  "post_init self =
     (case task_name self of
        Some t \<Rightarrow>
          (let self = self\<lparr>task_name := Some (lower t)\<rparr> in
           if lower t \<notin> set (map fst task_to_keys)
           then Inl (ValueError (''Unknown task, you should pick one in '' @
                                  join '','' (map fst task_to_keys)))
           else Inr self)
      | None \<Rightarrow>
          (case train_file self of
             None \<Rightarrow> Inl (ValueError ''Need either a GLUE task or a training/validation file.'')
           | Some tf \<Rightarrow>
          (case validation_file self of
             None \<Rightarrow> Inl (ValueError ''Need either a GLUE task or a training/validation file.'')
           | Some vf \<Rightarrow>
               if extension tf \<notin> set [''csv'', ''json'']
               then Inl (AssertionError ''`train_file` should be a csv or a json file.'')
               else if extension vf \<notin> set [''csv'', ''json'']
               then Inl (AssertionError ''`validation_file` should be a csv or a json file.'')
               else Inr self)))"

section \<open>Datasets\<close>

text \<open>
  What the module reads of the \<^verbatim>\<open>datasets\<close> library. A column is a list of cells, or a list
  of token-id lists once the tokenizer has run. A feature is a \<^verbatim>\<open>ClassLabel\<close> with its names
  (its \<^verbatim>\<open>dtype\<close> is int64) or a \<^verbatim>\<open>Value\<close> with a dtype and no \<^verbatim>\<open>names\<close> attribute.
\<close>

datatype column = Cells "pyval list" | Tokens "int list list"

type_synonym batch = "string \<rightharpoonup> column"

datatype feature = ClassLabel "string list" | Value string

fun feature_dtype :: "feature \<Rightarrow> string" where
  "feature_dtype (ClassLabel ns) = ''int64''"
| "feature_dtype (Value d) = d"

fun feature_names :: "feature \<Rightarrow> error + string list" where
  "feature_names (ClassLabel ns) = Inr ns"
| "feature_names (Value d) = Inl (AttributeError ''names'')"

record dataset =
  features :: "string \<rightharpoonup> feature"
  column_names :: "string list"
  columns :: batch
  num_rows :: nat

type_synonym dataset_dict = "string \<rightharpoonup> dataset"

text \<open>\<^verbatim>\<open>dataset.unique(name)\<close>: the distinct values of a column, by first occurrence.\<close>

definition unique :: "dataset \<Rightarrow> string \<Rightarrow> error + pyval list" where
  "unique ds name =
     (case columns ds name of
        None \<Rightarrow> Inl (ValueError ''Column does not exist'')
      | Some (Tokens rows) \<Rightarrow> Inl (ExternalError ''unique is not implemented for list columns'')
      | Some (Cells vs) \<Rightarrow> Inr (rev (remdups (rev vs))))"

text \<open>
  \<^verbatim>\<open>list.sort()\<close> and \<^verbatim>\<open>sorted\<close>: strings are ordered lexicographically by code point,
  numbers by value (a stable sort), and comparing a string with a number raises TypeError.
\<close>

fun is_str :: "pyval \<Rightarrow> bool" where
  "is_str (PStr s) = True"
| "is_str v = False"

fun str_of :: "pyval \<Rightarrow> string" where
  "str_of (PStr s) = s"
| "str_of v = []"

fun num_of :: "pyval \<Rightarrow> real" where
  "num_of (PInt i) = real_of_int i"
| "num_of (PFloat x) = x"
| "num_of (PStr s) = 0"

definition py_sort :: "pyval list \<Rightarrow> error + pyval list" where
  "py_sort xs =
     (if list_all is_str xs then Inr (map PStr (sort (map str_of xs)))
      else if list_all (\<lambda>v. \<not> is_str v) xs then Inr (sort_key num_of xs)
      else Inl TypeError)"

text \<open>A Python dict is an association list in insertion order; \<^verbatim>\<open>d1 == d2\<close> ignores the order.\<close>

definition dict_eq :: "('k \<times> 'v) list \<Rightarrow> ('k \<times> 'v) list \<Rightarrow> bool" where
  "dict_eq d1 d2 = (list_all (\<lambda>kv. kv \<in> set d2) d1 \<and> list_all (\<lambda>kv. kv \<in> set d1) d2)"

section \<open>Label-space derivation\<close>

text \<open>
  The three locals that lines 164 to 184 of \<^verbatim>\<open>create_datasets\<close> assign. \<open>loc_label_list\<close> is
  \<open>None\<close> when no branch taken has assigned \<^verbatim>\<open>label_list\<close>.
\<close>

record label_locals =
  loc_is_regression :: bool
  loc_label_list :: "pyval list option"
  loc_num_labels :: nat

text \<open>\<^verbatim>\<open>datasets["train"].features["label"]\<close>\<close>

definition train_label_feature :: "dataset_dict \<Rightarrow> error + feature" where
  "train_label_feature datasets =
     (case datasets ''train'' of
        None \<Rightarrow> Inl (KeyError (PStr ''train''))
      | Some train \<Rightarrow>
          (case features train ''label'' of
             None \<Rightarrow> Inl (KeyError (PStr ''label''))
           | Some f \<Rightarrow> Inr f))"

text \<open>\<^verbatim>\<open>label_list = datasets["train"].unique("label"); label_list.sort()\<close>\<close>

definition sorted_unique_labels :: "dataset_dict \<Rightarrow> error + pyval list" where
  "sorted_unique_labels datasets =
     (case datasets ''train'' of
        None \<Rightarrow> Inl (KeyError (PStr ''train''))
      | Some train \<Rightarrow>
          (case unique train ''label'' of
             Inl e \<Rightarrow> Inl e
           | Inr label_list \<Rightarrow> py_sort label_list))"

definition derive_labels :: "string option \<Rightarrow> dataset_dict \<Rightarrow> error + label_locals" where
  "derive_labels task datasets =
     (case task of
        Some t \<Rightarrow>
          (let is_regression = (t = ''stsb'') in
           if \<not> is_regression then
             (case train_label_feature datasets of
                Inl e \<Rightarrow> Inl e
              | Inr f \<Rightarrow>
                  (case feature_names f of
                     Inl e \<Rightarrow> Inl e
                   | Inr names \<Rightarrow>
                       Inr \<lparr>loc_is_regression = is_regression,
                            loc_label_list = Some (map PStr names),
                            loc_num_labels = length names\<rparr>))
           else Inr \<lparr>loc_is_regression = is_regression, loc_label_list = None,
                     loc_num_labels = 1\<rparr>)
      | None \<Rightarrow>
          (case train_label_feature datasets of
             Inl e \<Rightarrow> Inl e
           | Inr f \<Rightarrow>
               (let is_regression = (feature_dtype f \<in> set [''float32'', ''float64'']) in
                if is_regression then
                  Inr \<lparr>loc_is_regression = is_regression, loc_label_list = None,
                       loc_num_labels = 1\<rparr>
                else
                  (case sorted_unique_labels datasets of
                     Inl e \<Rightarrow> Inl e
                   | Inr label_list \<Rightarrow>
                       Inr \<lparr>loc_is_regression = is_regression,
                            loc_label_list = Some label_list,
                            loc_num_labels = length label_list\<rparr>))))"

section \<open>Task resolution and padding\<close>

definition resolve_keys ::
    "string option \<Rightarrow> dataset_dict \<Rightarrow> error + (string \<times> string option)" where
  "resolve_keys task datasets =
     (case task of
        Some t \<Rightarrow>
          (case map_of task_to_keys t of
             None \<Rightarrow> Inl (KeyError (PStr t))
           | Some ks \<Rightarrow> Inr ks)
      | None \<Rightarrow>
          (case datasets ''train'' of
             None \<Rightarrow> Inl (KeyError (PStr ''train''))
           | Some train \<Rightarrow>
               (let non_label_column_names =
                      filter (\<lambda>name. name \<noteq> ''label'') (column_names train) in
                if ''sentence1'' \<in> set non_label_column_names \<and>
                   ''sentence2'' \<in> set non_label_column_names
                then Inr (''sentence1'', Some ''sentence2'')
                else if length non_label_column_names \<ge> 2
                then Inr (non_label_column_names ! 0, Some (non_label_column_names ! 1))
                else (case non_label_column_names of
                        [] \<Rightarrow> Inl IndexError
                      | name # rest \<Rightarrow> Inr (name, None)))))"

text \<open>The \<^verbatim>\<open>padding\<close> argument of the tokenizer: \<^verbatim>\<open>"max_length"\<close> or \<^verbatim>\<open>False\<close>.\<close>

datatype padding = MaxLength | NoPadding

definition padding_strategy :: "data_args \<Rightarrow> padding \<times> int option" where
  "padding_strategy args =
     (if pad_to_max_length args then (MaxLength, Some (max_seq_length args))
      else (NoPadding, None))"

section \<open>Label remap resolution\<close>

datatype log_record =
    Warning_label_mismatch "string list" "pyval list"
  | Info_sample nat

text \<open>\<^verbatim>\<open>{k.lower(): v for k, v in label2id.items()}\<close>: a later item replaces an earlier one.\<close>

definition lower_keys :: "(string \<times> int) list \<Rightarrow> (string \<times> int) list" where
  "lower_keys label2id = foldl (\<lambda>d (k, v). AList.update (lower k) v d) [] label2id"

text \<open>\<^verbatim>\<open>{i: label_name_to_id[label_list[i]] for i in range(num_labels)}\<close>, index by index.\<close>

fun remap_entries ::
    "(string \<times> int) list \<Rightarrow> pyval list \<Rightarrow> nat list \<Rightarrow> error + (pyval \<times> int) list" where
  "remap_entries label_name_to_id label_list [] = Inr []"
| "remap_entries label_name_to_id label_list (i # rest) =
     (if length label_list \<le> i then Inl IndexError
      else if \<not> is_str (label_list ! i) then Inl (KeyError (label_list ! i))
      else (case map_of label_name_to_id (str_of (label_list ! i)) of
              None \<Rightarrow> Inl (KeyError (label_list ! i))
            | Some v \<Rightarrow>
                (case remap_entries label_name_to_id label_list rest of
                   Inl e \<Rightarrow> Inl e
                 | Inr d \<Rightarrow> Inr ((PInt (int i), v) # d))))"

text \<open>
  The body of the guarded branch, lines 224 to 233. The warning is the call
  \<^verbatim>\<open>logger.warn(msg, text)\<close>: the record is handed to the logger with the second string as
  a format argument of a message that has no placeholder, so a handler that formats it
  reports a logging error instead of printing the labels. The record below stands for the
  call.
\<close>

definition label_remap ::
    "(string \<times> int) list \<Rightarrow> pyval list \<Rightarrow> nat \<Rightarrow>
     (error + (pyval \<times> int) list option) \<times> log_record list" where
  "label_remap label2id label_list num_labels =
     (let label_name_to_id = lower_keys label2id;
          model_labels = sort (map fst label_name_to_id) in
      case py_sort label_list of
        Inl e \<Rightarrow> (Inl e, [])
      | Inr dataset_labels \<Rightarrow>
          if map PStr model_labels = dataset_labels
          then (case remap_entries label_name_to_id label_list [0..<num_labels] of
                  Inl e \<Rightarrow> (Inl e, [])
                | Inr d \<Rightarrow> (Inr (Some d), []))
          else (Inr None, [Warning_label_mismatch model_labels dataset_labels]))"

text \<open>\<^verbatim>\<open>{v: i for i, v in enumerate(label_list)}\<close>\<close>

definition direct_table :: "pyval list \<Rightarrow> (pyval \<times> int) list" where
  "direct_table label_list =
     foldl (\<lambda>d (i, v). AList.update v (int i) d) [] (enumerate 0 label_list)"

text \<open>
  Lines 215 to 235. \<open>fresh_label2id num_labels\<close> is the table
  \<^verbatim>\<open>PretrainedConfig(num_labels=num_labels).label2id\<close> of the transformers library, and
  \<open>label2id\<close> the table of the model's config.
\<close>

definition resolve_label_to_id ::
    "(nat \<Rightarrow> (string \<times> int) list) \<Rightarrow> (string \<times> int) list \<Rightarrow> string option \<Rightarrow> bool \<Rightarrow>
     pyval list \<Rightarrow> nat \<Rightarrow> (error + (pyval \<times> int) list option) \<times> log_record list" where
  "resolve_label_to_id fresh_label2id label2id task is_regression label_list num_labels =
     (if \<not> dict_eq label2id (fresh_label2id num_labels) \<and> task \<noteq> None \<and> is_regression
      then label_remap label2id label_list num_labels
      else if task = None then (Inr (Some (direct_table label_list)), [])
      else (Inr None, []))"

section \<open>Preprocessing\<close>

text \<open>\<^verbatim>\<open>[label_to_id[l] for l in examples["label"]]\<close>; a token-id list is not hashable.\<close>

fun rewrite_cells :: "(pyval \<times> int) list \<Rightarrow> pyval list \<Rightarrow> error + pyval list" where
  "rewrite_cells label_to_id [] = Inr []"
| "rewrite_cells label_to_id (l # rest) =
     (case map_of label_to_id l of
        None \<Rightarrow> Inl (KeyError l)
      | Some v \<Rightarrow>
          (case rewrite_cells label_to_id rest of
             Inl e \<Rightarrow> Inl e
           | Inr ls \<Rightarrow> Inr (PInt v # ls)))"

fun rewrite_labels :: "(pyval \<times> int) list \<Rightarrow> column \<Rightarrow> error + pyval list" where
  "rewrite_labels label_to_id (Cells ls) = rewrite_cells label_to_id ls"
| "rewrite_labels label_to_id (Tokens rows) = (if rows = [] then Inr [] else Inl TypeError)"

type_synonym tokenizer = "column list \<Rightarrow> padding \<Rightarrow> int option \<Rightarrow> bool \<Rightarrow> error + batch"

definition preprocess_function ::
    "tokenizer \<Rightarrow> string \<Rightarrow> string option \<Rightarrow> padding \<Rightarrow> int option \<Rightarrow>
     (pyval \<times> int) list option \<Rightarrow> batch \<Rightarrow> error + batch" where
  "preprocess_function tokenizer sentence1_key sentence2_key padding max_length label_to_id
       examples =
     (case examples sentence1_key of
        None \<Rightarrow> Inl (KeyError (PStr sentence1_key))
      | Some text_a \<Rightarrow>
     (case (case sentence2_key of
              None \<Rightarrow> Inr [text_a]
            | Some key_b \<Rightarrow>
                (case examples key_b of
                   None \<Rightarrow> Inl (KeyError (PStr key_b))
                 | Some text_b \<Rightarrow> Inr [text_a, text_b])) of
        Inl e \<Rightarrow> Inl e
      | Inr args \<Rightarrow>
     (case tokenizer args padding max_length True of
        Inl e \<Rightarrow> Inl e
      | Inr result \<Rightarrow>
          (case label_to_id of
             None \<Rightarrow> Inr result
           | Some table \<Rightarrow>
               (case examples ''label'' of
                  None \<Rightarrow> Inr result
                | Some labels \<Rightarrow>
                    (case rewrite_labels table labels of
                       Inl e \<Rightarrow> Inl e
                     | Inr ls \<Rightarrow> Inr (result(''label'' \<mapsto> Cells ls))))))))"

section \<open>Dataset setup\<close>

text \<open>
  The attributes of the experiment object that \<^verbatim>\<open>create_datasets\<close> assigns (\<open>None\<close>: not
  assigned yet), and the records sent to the module's logger.
\<close>

record xp =
  self_data_args :: data_args
  self_datasets :: "dataset_dict option"
  self_is_regression :: "bool option"
  self_label_list :: "pyval list option"
  self_num_labels :: "nat option"
  self_sentence1_key :: "string option"
  self_sentence2_key :: "string option option"
  self_label_to_id :: "(pyval \<times> int) list option option"
  logged :: "log_record list"

text \<open>
  The collaborators, none of them in this module: \<^verbatim>\<open>load_dataset\<close> and \<^verbatim>\<open>DatasetDict.map\<close> of
  the datasets library, \<^verbatim>\<open>self.create_config()\<close> of the base class (reduced to the
  \<^verbatim>\<open>label2id\<close> of the config it returns), \<^verbatim>\<open>PretrainedConfig(num_labels=n).label2id\<close>,
  the tokenizer, and \<^verbatim>\<open>random.sample(range(n), k)\<close> for \<open>k \<le> n\<close>.
\<close>

datatype load_request = LoadHub string string | LoadFiles string string "string option"

record env =
  load_dataset :: "load_request \<Rightarrow> error + dataset_dict"
  create_config :: "xp \<Rightarrow> error + (string \<times> int) list"
  default_label2id :: "nat \<Rightarrow> (string \<times> int) list"
  env_tokenizer :: tokenizer
  dataset_map :: "(batch \<Rightarrow> error + batch) \<Rightarrow> bool \<Rightarrow> dataset_dict \<Rightarrow> error + dataset_dict"
  random_sample :: "nat \<Rightarrow> nat \<Rightarrow> nat list"

text \<open>Lines 137 to 157: which loader is called, with which arguments.\<close>

definition dataset_request :: "data_args \<Rightarrow> error + load_request" where
  "dataset_request args =
     (case task_name args of
        Some t \<Rightarrow> Inr (LoadHub ''glue'' t)
      | None \<Rightarrow>
          (case train_file args of
             None \<Rightarrow> Inl (AttributeError ''endswith'')
           | Some tf \<Rightarrow>
               if endswith tf ''.csv'' then Inr (LoadFiles ''csv'' tf (validation_file args))
               else Inr (LoadFiles ''json'' tf (validation_file args))))"

text \<open>Lines 258 to 265: the splits looked up after the map, and the three logged samples.\<close>

definition pick_splits :: "string option \<Rightarrow> dataset_dict \<Rightarrow> error + dataset" where
  "pick_splits task datasets =
     (case datasets ''train'' of
        None \<Rightarrow> Inl (KeyError (PStr ''train''))
      | Some train_dataset \<Rightarrow>
     (let eval_name = (if task = Some ''mnli'' then ''validation_matched'' else ''validation'') in
      case datasets eval_name of
        None \<Rightarrow> Inl (KeyError (PStr eval_name))
      | Some eval_dataset \<Rightarrow>
          if task \<noteq> None then
            (let test_name = (if task = Some ''mnli'' then ''test_matched'' else ''test'') in
             case datasets test_name of
               None \<Rightarrow> Inl (KeyError (PStr test_name))
             | Some test_dataset \<Rightarrow> Inr train_dataset)
          else Inr train_dataset))"

definition log_samples :: "env \<Rightarrow> dataset \<Rightarrow> error + log_record list" where
  "log_samples env train_dataset =
     (if num_rows train_dataset < 3
      then Inl (ValueError ''Sample larger than population or is negative'')
      else Inr (map Info_sample (random_sample env (num_rows train_dataset) 3)))"

text \<open>
  \<^verbatim>\<open>GlueXP.create_datasets\<close>, cut at the comments that divide the method. Each part
  returns the object as the method leaves it and the exception it raised, if any.
\<close>

text \<open>Lines 252 to 265: the batched map over every split, then the samples.\<close>

definition map_and_sample ::
    "env \<Rightarrow> xp \<Rightarrow> dataset_dict \<Rightarrow> string \<Rightarrow> string option \<Rightarrow>
     (pyval \<times> int) list option \<Rightarrow> xp \<times> error option" where
  "map_and_sample env self datasets sentence1_key sentence2_key label_to_id =
     (let data_args = self_data_args self;
          padding = fst (padding_strategy data_args);
          max_length = snd (padding_strategy data_args) in
      (case dataset_map env
              (preprocess_function (env_tokenizer env) sentence1_key sentence2_key padding
                 max_length label_to_id)
              (\<not> overwrite_cache data_args) datasets of
         Inl e \<Rightarrow> (self, Some e)
       | Inr mapped \<Rightarrow>
           (case pick_splits (task_name data_args) mapped of
              Inl e \<Rightarrow> (self, Some e)
            | Inr train_dataset \<Rightarrow>
                (case log_samples env train_dataset of
                   Inl e \<Rightarrow> (self, Some e)
                 | Inr records \<Rightarrow> (self\<lparr>logged := logged self @ records\<rparr>, None)))))"

text \<open>Lines 214 to 237: the model's config and \<^verbatim>\<open>self.label_to_id\<close>.\<close>

definition reconcile_labels ::
    "env \<Rightarrow> xp \<Rightarrow> dataset_dict \<Rightarrow> bool \<Rightarrow> pyval list \<Rightarrow> nat \<Rightarrow> string \<Rightarrow> string option \<Rightarrow>
     xp \<times> error option" where
  "reconcile_labels env self datasets is_regression label_list num_labels sentence1_key
       sentence2_key =
     (case create_config env self of
        Inl e \<Rightarrow> (self, Some e)
      | Inr label2id \<Rightarrow>
          (let r = resolve_label_to_id (default_label2id env) label2id
                     (task_name (self_data_args self)) is_regression label_list num_labels;
               self = self\<lparr>logged := logged self @ snd r\<rparr> in
           (case fst r of
              Inl e \<Rightarrow> (self, Some e)
            | Inr label_to_id \<Rightarrow>
                map_and_sample env (self\<lparr>self_label_to_id := Some label_to_id\<rparr>) datasets
                  sentence1_key sentence2_key label_to_id)))"

text \<open>Lines 163 to 203: the label space and the text fields.\<close>

definition labels_and_keys :: "env \<Rightarrow> xp \<Rightarrow> dataset_dict \<Rightarrow> xp \<times> error option" where
  "labels_and_keys env self datasets =
     (let task = task_name (self_data_args self) in
      (case derive_labels task datasets of
         Inl e \<Rightarrow> (self, Some e)
       | Inr loc \<Rightarrow>
           (let self = self\<lparr>self_is_regression := Some (loc_is_regression loc)\<rparr> in
            (case loc_label_list loc of
               None \<Rightarrow> (self, Some (UnboundLocalError ''label_list''))
             | Some label_list \<Rightarrow>
                 (let self = self\<lparr>self_label_list := Some label_list,
                                   self_num_labels := Some (loc_num_labels loc)\<rparr> in
                  (case resolve_keys task datasets of
                     Inl e \<Rightarrow> (self, Some e)
                   | Inr keys \<Rightarrow>
                       reconcile_labels env
                         (self\<lparr>self_sentence1_key := Some (fst keys),
                                self_sentence2_key := Some (snd keys)\<rparr>)
                         datasets (loc_is_regression loc) label_list (loc_num_labels loc)
                         (fst keys) (snd keys)))))))"

text \<open>The whole method, from line 134.\<close>

definition create_datasets :: "env \<Rightarrow> xp \<Rightarrow> xp \<times> error option" where
  "create_datasets env self =
     (case dataset_request (self_data_args self) of
        Inl e \<Rightarrow> (self, Some e)
      | Inr request \<Rightarrow>
          (case load_dataset env request of
             Inl e \<Rightarrow> (self, Some e)
           | Inr datasets \<Rightarrow>
               labels_and_keys env (self\<lparr>self_datasets := Some datasets\<rparr>) datasets))"

section \<open>Metrics\<close>

text \<open>
  The numpy arrays \<^verbatim>\<open>compute_metrics\<close> handles, up to two dimensions: a scalar, a vector, or
  \<open>A2 c rows\<close>, a matrix of \<open>c\<close> columns whose rows all have length \<open>c\<close>. The entries of the
  predictions and of the label ids are finite numbers, given by their values; on these,
  comparison is exact. A result of floating-point arithmetic is a \<open>pyfloat\<close>: a finite
  value, an infinity, or NaN.
\<close>

datatype 'a ndarray = A0 'a | A1 "'a list" | A2 nat "'a list list"

datatype pyfloat = Float real | PosInf | NegInf | NaN

fun rank :: "'a ndarray \<Rightarrow> nat" where
  "rank (A0 x) = 0"
| "rank (A1 xs) = 1"
| "rank (A2 c rows) = 2"

fun as_rows :: "'a ndarray \<Rightarrow> nat \<times> 'a list list" where
  "as_rows (A0 x) = (1, [[x]])"
| "as_rows (A1 xs) = (length xs, [xs])"
| "as_rows (A2 c rows) = (c, rows)"

fun of_rows :: "nat \<Rightarrow> nat \<Rightarrow> 'a list list \<Rightarrow> 'a ndarray" where
  "of_rows 0 c rows = A0 (hd (hd rows))"
| "of_rows (Suc 0) c rows = A1 (hd rows)"
| "of_rows (Suc (Suc r)) c rows = A2 c rows"

text \<open>\<^verbatim>\<open>np.squeeze\<close>: the axes of length one are dropped.\<close>

fun squeeze :: "'a ndarray \<Rightarrow> 'a ndarray" where
  "squeeze (A0 x) = A0 x"
| "squeeze (A1 xs) = (if length xs = 1 then A0 (hd xs) else A1 xs)"
| "squeeze (A2 c rows) =
     (if length rows = 1 then (if c = 1 then A0 (hd (hd rows)) else A1 (hd rows))
      else if c = 1 then A1 (map hd rows)
      else A2 c rows)"

text \<open>\<^verbatim>\<open>np.argmax(a, axis=1)\<close>: for each row the index of its first maximum.\<close>

fun argmax_from :: "real \<Rightarrow> nat \<Rightarrow> nat \<Rightarrow> real list \<Rightarrow> nat" where
  "argmax_from best k i [] = k"
| "argmax_from best k i (x # xs) =
     (if best < x then argmax_from x i (Suc i) xs else argmax_from best k (Suc i) xs)"

fun argmax_row :: "real list \<Rightarrow> nat" where
  "argmax_row [] = 0"
| "argmax_row (x # xs) = argmax_from x 0 1 xs"

fun argmax_axis1 :: "real ndarray \<Rightarrow> error + real ndarray" where
  "argmax_axis1 (A2 c rows) =
     (if c = 0 then Inl (ValueError ''attempt to get argmax of an empty sequence'')
      else Inr (A1 (map (\<lambda>row. real (argmax_row row)) rows)))"
| "argmax_axis1 a = Inl AxisError"

text \<open>
  An elementwise operation with numpy's broadcasting: two lengths are compatible when they
  are equal or one of them is 1. Shapes that are not compatible are an exception.
\<close>

definition compatible :: "nat \<Rightarrow> nat \<Rightarrow> bool" where
  "compatible n m = (n = m \<or> n = 1 \<or> m = 1)"

definition stretch :: "('a \<Rightarrow> 'b \<Rightarrow> 'c) \<Rightarrow> 'a list \<Rightarrow> 'b list \<Rightarrow> 'c list" where
  "stretch f xs ys =
     (if length xs = length ys then map2 f xs ys
      else if length xs = 1 then map (f (hd xs)) ys
      else map (\<lambda>x. f x (hd ys)) xs)"

definition broadcast ::
    "('a \<Rightarrow> 'b \<Rightarrow> 'c) \<Rightarrow> 'a ndarray \<Rightarrow> 'b ndarray \<Rightarrow> error + 'c ndarray" where
  "broadcast f a b =
     (let ca = fst (as_rows a); ra = snd (as_rows a);
          cb = fst (as_rows b); rb = snd (as_rows b) in
      if compatible ca cb \<and> compatible (length ra) (length rb)
      then Inr (of_rows (max (rank a) (rank b)) (if ca = 1 then cb else ca)
                  (stretch (stretch f) ra rb))
      else Inl (ValueError ''operands could not be broadcast together''))"

fun elements :: "'a ndarray \<Rightarrow> 'a list" where
  "elements (A0 x) = [x]"
| "elements (A1 xs) = xs"
| "elements (A2 c rows) = concat rows"

text \<open>
  The floating-point arithmetic of numpy is a collaborator. It rounds, overflows to an
  infinity and propagates NaN, at the dtype of the arrays at hand:
  \<^item> \<open>np_subtract\<close> and \<open>np_square\<close> are one entry of \<^verbatim>\<open>preds - p.label_ids\<close> and of
    \<^verbatim>\<open>** 2\<close>;
  \<^item> \<open>np_mean\<close> is \<^verbatim>\<open>.mean().item()\<close> on the entries of a float array;
  \<^item> \<open>np_mean_float32\<close> is \<^verbatim>\<open>.astype(np.float32).mean().item()\<close> on the entries of a
    Boolean array;
  \<^item> \<open>np_mean_scores\<close> is \<^verbatim>\<open>np.mean(...).item()\<close> on a list of Python floats.
\<close>

record numpy =
  np_subtract :: "real \<Rightarrow> real \<Rightarrow> pyfloat"
  np_square :: "pyfloat \<Rightarrow> pyfloat"
  np_mean :: "pyfloat list \<Rightarrow> pyfloat"
  np_mean_float32 :: "bool list \<Rightarrow> pyfloat"
  np_mean_scores :: "pyfloat list \<Rightarrow> pyfloat"

text \<open>
  \<^verbatim>\<open>EvalPrediction\<close>: \<^verbatim>\<open>predictions\<close> is an array or a tuple of arrays. The metric of
  \<^verbatim>\<open>load_metric("glue", task)\<close> is a collaborator, given as \<open>metric\<close>.
\<close>

datatype predictions = Array "real ndarray" | Tuple "real ndarray list"

record eval_prediction =
  predictions :: predictions
  label_ids :: "real ndarray"

type_synonym metric = "real ndarray \<Rightarrow> real ndarray \<Rightarrow> error + (string \<times> pyfloat) list"

text \<open>Lines 288 to 291.\<close>

definition task_metric ::
    "numpy \<Rightarrow> metric \<Rightarrow> real ndarray \<Rightarrow> real ndarray \<Rightarrow> error + (string \<times> pyfloat) list" where
  "task_metric np metric preds refs =
     (case metric preds refs of
        Inl e \<Rightarrow> Inl e
      | Inr result \<Rightarrow>
          if length result > 1
          then Inr (AList.update ''combined_score'' (np_mean_scores np (map snd result)) result)
          else Inr result)"

text \<open>\<^verbatim>\<open>((preds - p.label_ids) ** 2).mean().item()\<close>\<close>

definition mse :: "numpy \<Rightarrow> real ndarray \<Rightarrow> real ndarray \<Rightarrow> error + pyfloat" where
  "mse np preds refs =
     (case broadcast (\<lambda>x y. np_square np (np_subtract np x y)) preds refs of
        Inl e \<Rightarrow> Inl e
      | Inr squares \<Rightarrow> Inr (np_mean np (elements squares)))"

text \<open>\<^verbatim>\<open>(preds == p.label_ids).astype(np.float32).mean().item()\<close>\<close>

definition accuracy :: "numpy \<Rightarrow> real ndarray \<Rightarrow> real ndarray \<Rightarrow> error + pyfloat" where
  "accuracy np preds refs =
     (case broadcast (\<lambda>x y. x = y) preds refs of
        Inl e \<Rightarrow> Inl e
      | Inr hits \<Rightarrow> Inr (np_mean_float32 np (elements hits)))"

definition compute_metrics ::
    "numpy \<Rightarrow> metric \<Rightarrow> xp \<Rightarrow> eval_prediction \<Rightarrow> error + (string \<times> pyfloat) list" where
  "compute_metrics np metric self p =
     (case (case predictions p of
              Array a \<Rightarrow> Inr a
            | Tuple arrays \<Rightarrow> (case arrays of [] \<Rightarrow> Inl IndexError | a # rest \<Rightarrow> Inr a)) of
        Inl e \<Rightarrow> Inl e
      | Inr preds \<Rightarrow>
     (case self_is_regression self of
        None \<Rightarrow> Inl (AttributeError ''is_regression'')
      | Some is_regression \<Rightarrow>
     (case (if is_regression then Inr (squeeze preds) else argmax_axis1 preds) of
        Inl e \<Rightarrow> Inl e
      | Inr preds \<Rightarrow>
          if task_name (self_data_args self) \<noteq> None
          then task_metric np metric preds (label_ids p)
          else if is_regression
          then (case mse np preds (label_ids p) of
                  Inl e \<Rightarrow> Inl e
                | Inr v \<Rightarrow> Inr [(''mse'', v)])
          else (case accuracy np preds (label_ids p) of
                  Inl e \<Rightarrow> Inl e
                | Inr v \<Rightarrow> Inr [(''accuracy'', v)]))))"

section \<open>The evaluation entry point\<close>

text \<open>
  \<^verbatim>\<open>GlueXP.evaluate_model\<close>. Its collaborators are the file system and \<^verbatim>\<open>run_from_dict\<close>
  of the base class; every use of one is recorded as an effect.
\<close>

datatype effect =
    Resolve_path string
  | Run_from_dict "(string \<times> pyval) list"
  | Read_json string

record eval_env =
  resolve_path :: "string \<Rightarrow> string"
  run_from_dict :: "(string \<times> pyval) list \<Rightarrow> error option"
  read_json :: "string \<Rightarrow> error + string"

text \<open>Lines 327 to 355, all that follows the assertion.\<close>

definition evaluate_body ::
    "eval_env \<Rightarrow> string \<Rightarrow> pyval \<Rightarrow> (error + (string \<times> string) list) \<times> effect list" where
  "evaluate_body env src_path optimize_mode =
     (let src_path_str = resolve_path env src_path;
          parameters =
            [(''model_name_or_path'', PStr src_path_str),
             (''dataset_name'', PStr ''squad''),
             (''do_train'', PInt 0),
             (''do_eval'', PInt 1),
             (''per_device_train_batch_size'', PInt 16),
             (''max_seq_length'', PInt 384),
             (''doc_stride'', PInt 128),
             (''output_dir'', PStr src_path_str),
             (''logging_dir'', PStr src_path_str),
             (''overwrite_cache'', PInt 0),
             (''overwrite_output_dir'', PInt 0),
             (''per_device_eval_batch_size'', PInt 128),
             (''optimize_model_before_eval'', optimize_mode)];
          timing_file = src_path_str @ ''/checkpoint-0/evaluate_timing.json'';
          metrics_file = src_path_str @ ''/checkpoint-0/eval_metrics.json'' in
      (case run_from_dict env parameters of
         Some e \<Rightarrow> (Inl e, [Resolve_path src_path, Run_from_dict parameters])
       | None \<Rightarrow>
           (case read_json env timing_file of
              Inl e \<Rightarrow>
                (Inl e, [Resolve_path src_path, Run_from_dict parameters, Read_json timing_file])
            | Inr j \<Rightarrow>
                (case read_json env metrics_file of
                   Inl e \<Rightarrow>
                     (Inl e, [Resolve_path src_path, Run_from_dict parameters,
                              Read_json timing_file, Read_json metrics_file])
                 | Inr j2 \<Rightarrow>
                     (Inr [(''timings'', j), (''metrics'', j2)],
                      [Resolve_path src_path, Run_from_dict parameters,
                       Read_json timing_file, Read_json metrics_file])))))"

definition evaluate_model ::
    "eval_env \<Rightarrow> string \<Rightarrow> pyval \<Rightarrow> (error + (string \<times> string) list) \<times> effect list" where
  "evaluate_model env src_path optimize_mode =
     (if \<not> False then (Inl (AssertionError []), [])
      else evaluate_body env src_path optimize_mode)"

section \<open>Columns of one type\<close>

text \<open>
  A column of a dataset holds values of one type: every cell is a string, or every cell is
  a number. \<open>py_sort\<close> raises on any other list of two or more cells.
\<close>

definition homogeneous :: "pyval list \<Rightarrow> bool" where
  "homogeneous vs = (list_all is_str vs \<or> list_all (\<lambda>v. \<not> is_str v) vs)"

section \<open>Example inputs\<close>

text \<open>
  Arguments, datasets and collaborators for the concrete runs below: the MRPC and STS-B tasks
  of GLUE, a csv dataset with the labels pos and neg, and a csv dataset with float labels.
  The example collaborators load these datasets, give the model config the table they are
  built with, name the default labels \<^verbatim>\<open>LABEL_i\<close> (for at most ten labels), apply the
  preprocessing function to every split as one batch, and sample the first indices.
\<close>

definition mixed_case_args :: data_args where
  "mixed_case_args =
     \<lparr>task_name = Some ''MrPc'', max_seq_length = 128, train_file = None,
      validation_file = None, pad_to_max_length = True, overwrite_cache = False\<rparr>"

definition mrpc_split :: dataset where
  "mrpc_split =
     \<lparr>features = [''sentence1'' \<mapsto> Value ''string'', ''sentence2'' \<mapsto> Value ''string'',
                  ''label'' \<mapsto> ClassLabel [''not_equivalent'', ''equivalent''],
                  ''idx'' \<mapsto> Value ''int32''],
      column_names = [''sentence1'', ''sentence2'', ''label'', ''idx''],
      columns = [''sentence1'' \<mapsto> Cells [PStr ''He said so.'', PStr ''It rains.'', PStr ''Hi.''],
                 ''sentence2'' \<mapsto> Cells [PStr ''So he said.'', PStr ''It is dry.'', PStr ''Hi.''],
                 ''label'' \<mapsto> Cells [PInt 1, PInt 0, PInt 1],
                 ''idx'' \<mapsto> Cells [PInt 0, PInt 1, PInt 2]],
      num_rows = 3\<rparr>"

definition stsb_split :: dataset where
  "stsb_split =
     \<lparr>features = [''sentence1'' \<mapsto> Value ''string'', ''sentence2'' \<mapsto> Value ''string'',
                  ''label'' \<mapsto> Value ''float32'', ''idx'' \<mapsto> Value ''int32''],
      column_names = [''sentence1'', ''sentence2'', ''label'', ''idx''],
      columns = [''sentence1'' \<mapsto> Cells [PStr ''A plane.'', PStr ''A man.'', PStr ''Hi.''],
                 ''sentence2'' \<mapsto> Cells [PStr ''An air plane.'', PStr ''A dog.'', PStr ''Hi.''],
                 ''label'' \<mapsto> Cells [PFloat 5, PFloat (1 / 2), PFloat 5],
                 ''idx'' \<mapsto> Cells [PInt 0, PInt 1, PInt 2]],
      num_rows = 3\<rparr>"

definition sentiment_split :: dataset where
  "sentiment_split =
     \<lparr>features = [''sentence'' \<mapsto> Value ''string'', ''label'' \<mapsto> Value ''string''],
      column_names = [''sentence'', ''label''],
      columns = [''sentence'' \<mapsto> Cells [PStr ''Good.'', PStr ''Bad.'', PStr ''Fine.''],
                 ''label'' \<mapsto> Cells [PStr ''pos'', PStr ''neg'', PStr ''pos'']],
      num_rows = 3\<rparr>"

definition score_split :: dataset where
  "score_split =
     \<lparr>features = [''sentence'' \<mapsto> Value ''string'', ''label'' \<mapsto> Value ''float64''],
      column_names = [''sentence'', ''label''],
      columns = [''sentence'' \<mapsto> Cells [PStr ''Good.'', PStr ''Bad.'', PStr ''Fine.''],
                 ''label'' \<mapsto> Cells [PFloat 1, PFloat 0, PFloat (1 / 2)]],
      num_rows = 3\<rparr>"

definition example_loader :: "load_request \<Rightarrow> error + dataset_dict" where
  "example_loader request =
     (if request = LoadHub ''glue'' ''mrpc''
      then Inr [''train'' \<mapsto> mrpc_split, ''validation'' \<mapsto> mrpc_split, ''test'' \<mapsto> mrpc_split]
      else if request = LoadHub ''glue'' ''stsb''
      then Inr [''train'' \<mapsto> stsb_split, ''validation'' \<mapsto> stsb_split, ''test'' \<mapsto> stsb_split]
      else if request = LoadFiles ''csv'' ''sentiment/train.csv'' (Some ''sentiment/dev.csv'')
      then Inr [''train'' \<mapsto> sentiment_split, ''validation'' \<mapsto> sentiment_split]
      else if request = LoadFiles ''csv'' ''score/train.csv'' (Some ''score/dev.csv'')
      then Inr [''train'' \<mapsto> score_split, ''validation'' \<mapsto> score_split]
      else Inl (ExternalError ''FileNotFoundError''))"

definition example_tokenizer :: tokenizer where
  "example_tokenizer args padding max_length truncation =
     (case args of
        [] \<Rightarrow> Inl TypeError
      | text_a # rest \<Rightarrow>
          Inr [''input_ids'' \<mapsto>
                 Tokens (case text_a of
                           Cells vs \<Rightarrow> map (\<lambda>v. [101, 102]) vs
                         | Tokens rows \<Rightarrow> rows)])"

fun example_map_splits ::
    "(batch \<Rightarrow> error + batch) \<Rightarrow> dataset_dict \<Rightarrow> string list \<Rightarrow> error + dataset_dict" where
  "example_map_splits f datasets [] = Inr datasets"
| "example_map_splits f datasets (name # names) =
     (case datasets name of
        None \<Rightarrow> example_map_splits f datasets names
      | Some ds \<Rightarrow>
          (case f (columns ds) of
             Inl e \<Rightarrow> Inl e
           | Inr result \<Rightarrow>
               example_map_splits f
                 (datasets(name \<mapsto> ds\<lparr>columns := columns ds ++ result\<rparr>)) names))"

definition example_env :: "(string \<times> int) list \<Rightarrow> env" where
  "example_env label2id =
     \<lparr>load_dataset = example_loader,
      create_config = (\<lambda>self. Inr label2id),
      default_label2id = (\<lambda>n. map (\<lambda>i. (''LABEL_'' @ [char_of (48 + i)], int i)) [0..<n]),
      env_tokenizer = example_tokenizer,
      dataset_map = (\<lambda>f load_from_cache_file datasets.
                       example_map_splits f datasets [''train'', ''validation'', ''test'']),
      random_sample = (\<lambda>n k. [0..<k])\<rparr>"

definition new_xp :: "data_args \<Rightarrow> xp" where
  "new_xp args =
     \<lparr>self_data_args = args, self_datasets = None, self_is_regression = None,
      self_label_list = None, self_num_labels = None, self_sentence1_key = None,
      self_sentence2_key = None, self_label_to_id = None, logged = []\<rparr>"

definition task_args :: "string \<Rightarrow> data_args" where
  "task_args t =
     \<lparr>task_name = Some t, max_seq_length = 128, train_file = None, validation_file = None,
      pad_to_max_length = True, overwrite_cache = False\<rparr>"

definition file_args :: "string \<Rightarrow> string \<Rightarrow> data_args" where
  "file_args tf vf =
     \<lparr>task_name = None, max_seq_length = 128, train_file = Some tf, validation_file = Some vf,
      pad_to_max_length = False, overwrite_cache = False\<rparr>"

definition sentiment_datasets :: dataset_dict where
  "sentiment_datasets = [''train'' \<mapsto> sentiment_split, ''validation'' \<mapsto> sentiment_split]"

definition stsb_datasets :: dataset_dict where
  "stsb_datasets = [''train'' \<mapsto> stsb_split, ''validation'' \<mapsto> stsb_split, ''test'' \<mapsto> stsb_split]"

definition score_datasets :: dataset_dict where
  "score_datasets = [''train'' \<mapsto> score_split, ''validation'' \<mapsto> score_split]"

definition mrpc_datasets :: dataset_dict where
  "mrpc_datasets = [''train'' \<mapsto> mrpc_split, ''validation'' \<mapsto> mrpc_split, ''test'' \<mapsto> mrpc_split]"

definition stsb_xp :: xp where "stsb_xp = new_xp (task_args ''stsb'')"
definition mrpc_xp :: xp where "mrpc_xp = new_xp (task_args ''mrpc'')"
definition score_xp :: xp where "score_xp = new_xp (file_args ''score/train.csv'' ''score/dev.csv'')"
definition sentiment_xp :: xp where
  "sentiment_xp = new_xp (file_args ''sentiment/train.csv'' ''sentiment/dev.csv'')"

definition default_two :: "(string \<times> int) list" where
  "default_two = [(''LABEL_0'', 0), (''LABEL_1'', 1)]"

definition swapped_two :: "(string \<times> int) list" where
  "swapped_two = [(''EQUIVALENT'', 0), (''NOT_EQUIVALENT'', 1)]"

definition logits_example :: eval_prediction where
  "logits_example =
     \<lparr>predictions = Array (A2 2 [[0, 1], [1, 0], [0, 1]]), label_ids = A1 [1, 1, 1]\<rparr>"

definition scores_example :: eval_prediction where
  "scores_example = \<lparr>predictions = Array (A2 1 [[1 / 2], [2]]), label_ids = A1 [1, 1]\<rparr>"

definition unloaded_metric :: metric where
  "unloaded_metric preds refs = Inl (ExternalError ''no metric is loaded without a task name'')"

definition classifier_xp :: xp where
  "classifier_xp = sentiment_xp\<lparr>self_is_regression := Some False\<rparr>"

definition regressor_xp :: xp where
  "regressor_xp = score_xp\<lparr>self_is_regression := Some True\<rparr>"

section \<open>IEEE 754 rounding and arithmetic\<close>

text \<open>
  Rounding to the nearest binary floating-point number of precision \<open>p\<close> and largest exponent
  \<open>emax\<close>, ties to even, with gradual underflow and overflow to an infinity: float32 has 24
  bits and \<open>emax = 127\<close>, float64 has 53 bits and \<open>emax = 1023\<close>. \<open>binary_exponent\<close> is the
  exponent \<open>e\<close> with \<open>2^e \<le> a < 2^(e + 1)\<close>, kept between \<open>1 - emax\<close> and \<open>emax\<close>.
\<close>

definition pow2 :: "int \<Rightarrow> real" where
  "pow2 e = (if 0 \<le> e then 2 ^ nat e else 1 / 2 ^ nat (- e))"

definition round_half_even :: "real \<Rightarrow> int" where
  "round_half_even x =
     (let f = \<lfloor>x\<rfloor>; d = x - of_int f in
      if d < 1 / 2 then f
      else if 1 / 2 < d then f + 1
      else if even f then f else f + 1)"

fun exponent_down :: "nat \<Rightarrow> int \<Rightarrow> real \<Rightarrow> int" where
  "exponent_down 0 e a = e"
| "exponent_down (Suc n) e a = (if pow2 e \<le> a then e else exponent_down n (e - 1) a)"

fun exponent_up :: "nat \<Rightarrow> int \<Rightarrow> real \<Rightarrow> int" where
  "exponent_up 0 e a = e"
| "exponent_up (Suc n) e a = (if a < pow2 (e + 1) then e else exponent_up n (e + 1) a)"

definition binary_exponent :: "nat \<Rightarrow> real \<Rightarrow> int" where
  "binary_exponent emax a =
     (if 1 \<le> a then exponent_up emax 0 a else exponent_down (emax - 2) (- 1) a)"

definition ieee_round :: "nat \<Rightarrow> nat \<Rightarrow> real \<Rightarrow> pyfloat" where
  "ieee_round p emax x =
     (let a = \<bar>x\<bar>;
          e = binary_exponent emax a;
          v = of_int (round_half_even (a * pow2 (int p - 1 - e))) * pow2 (e - (int p - 1)) in
      if pow2 (int emax + 1) \<le> v then (if 0 < x then PosInf else NegInf)
      else Float (if 0 \<le> x then v else - v))"

definition round_float32 :: "real \<Rightarrow> pyfloat" where
  "round_float32 x = ieee_round 24 127 x"

definition round_float64 :: "real \<Rightarrow> pyfloat" where
  "round_float64 x = ieee_round 53 1023 x"

text \<open>Sum, square and quotient by a count, rounded by \<open>r\<close>, on finite and other values.\<close>

fun float_add :: "(real \<Rightarrow> pyfloat) \<Rightarrow> pyfloat \<Rightarrow> pyfloat \<Rightarrow> pyfloat" where
  "float_add r (Float x) (Float y) = r (x + y)"
| "float_add r NaN v = NaN"
| "float_add r v NaN = NaN"
| "float_add r PosInf NegInf = NaN"
| "float_add r NegInf PosInf = NaN"
| "float_add r PosInf v = PosInf"
| "float_add r v PosInf = PosInf"
| "float_add r NegInf v = NegInf"
| "float_add r v NegInf = NegInf"

fun float_square :: "(real \<Rightarrow> pyfloat) \<Rightarrow> pyfloat \<Rightarrow> pyfloat" where
  "float_square r (Float x) = r (x * x)"
| "float_square r NaN = NaN"
| "float_square r v = PosInf"

fun float_divide :: "(real \<Rightarrow> pyfloat) \<Rightarrow> pyfloat \<Rightarrow> nat \<Rightarrow> pyfloat" where
  "float_divide r (Float x) n = r (x / real n)"
| "float_divide r v n = v"

text \<open>
  The mean of an array: NaN when it is empty, and otherwise the sum, added from left to
  right as numpy adds fewer than eight entries, divided by the count.
\<close>

definition ieee_mean :: "(real \<Rightarrow> pyfloat) \<Rightarrow> pyfloat list \<Rightarrow> pyfloat" where
  "ieee_mean r vs =
     (if vs = [] then NaN else float_divide r (foldl (float_add r) (Float 0) vs) (length vs))"

text \<open>
  numpy on float32 arrays and on Python floats. The float32 sum of at most \<open>2^24\<close> zeros
  and ones is their count, whatever the order of the additions, so the mean of a Boolean
  array of at most that length is the rounded quotient of two counts.
\<close>

definition ieee_numpy :: numpy where
  "ieee_numpy =
     \<lparr>np_subtract = (\<lambda>x y. round_float32 (x - y)),
      np_square = float_square round_float32,
      np_mean = ieee_mean round_float32,
      np_mean_float32 =
        (\<lambda>hits. if hits = [] then NaN
                else round_float32 (real (length (filter (\<lambda>h. h) hits)) / real (length hits))),
      np_mean_scores = ieee_mean round_float64\<rparr>"

section \<open>The accuracy in the words of the specification\<close>

text \<open>
  The fraction of the predictions that equal their reference; and what IEEE 754 says of
  the float32 mean of a Boolean array of at most \<open>2^24\<close> entries.
\<close>

definition fraction_equal :: "real list \<Rightarrow> real list \<Rightarrow> real" where
  "fraction_equal preds refs =
     real (length (filter (\<lambda>(x, y). x = y) (zip preds refs))) / real (length refs)"

definition float32_mean_of_hits :: "numpy \<Rightarrow> bool" where
  "float32_mean_of_hits np =
     (\<forall>hits. hits \<noteq> [] \<and> length hits \<le> 2 ^ 24 \<longrightarrow>
        np_mean_float32 np hits =
          round_float32 (real (length (filter (\<lambda>h. h) hits)) / real (length hits)))"

section \<open>Evaluation of the string functions\<close>

lemma lower_MrPc: "lower ''MrPc'' = ''mrpc''"
  by code_simp

lemma task_names:
  "set (map fst task_to_keys) =
     {''cola'', ''mnli'', ''mrpc'', ''qnli'', ''qqp'', ''rte'', ''sst2'', ''stsb'', ''wnli''}"
  by (simp add: task_to_keys_def)

section \<open>Configuration validation: when it fails\<close>

text \<open>
  Claim C8. \<open>post_init\<close> raises exactly when a task name is given whose lower-cased form is
  not one of the nine GLUE names, or no task name is given and the train file or the
  validation file is missing, or no task name is given and the extension of a given file
  (what follows its last dot) is neither csv nor json. In every other case it returns the
  arguments, with the task name lower-cased.
\<close>

theorem post_init_fails_iff:
  "((\<exists>e. post_init a = Inl e) \<longleftrightarrow>
      (\<exists>t. task_name a = Some t \<and>
           lower t \<notin> {''cola'', ''mnli'', ''mrpc'', ''qnli'', ''qqp'', ''rte'', ''sst2'',
                       ''stsb'', ''wnli''}) \<or>
      (task_name a = None \<and> (train_file a = None \<or> validation_file a = None)) \<or>
      (task_name a = None \<and>
         ((\<exists>f. train_file a = Some f \<and> extension f \<notin> {''csv'', ''json''}) \<or>
          (\<exists>f. validation_file a = Some f \<and> extension f \<notin> {''csv'', ''json''})))) \<and>
   ((\<exists>e. post_init a = Inl e) \<or>
      post_init a = Inr (a\<lparr>task_name := map_option lower (task_name a)\<rparr>))"
  unfolding post_init_def task_names
  by (cases "task_name a"; cases "train_file a"; cases "validation_file a")
     (simp_all add: Let_def)

text \<open>
  The task name \<^verbatim>\<open>MrPc\<close> passes, and comes back as \<^verbatim>\<open>mrpc\<close>.
\<close>

theorem post_init_fails_iff_witness:
  "post_init mixed_case_args = Inr (mixed_case_args\<lparr>task_name := Some ''mrpc''\<rparr>)"
  using post_init_fails_iff [of mixed_case_args]
  by (auto simp add: mixed_case_args_def lower_MrPc)

section \<open>Task resolution: the fixed table\<close>

text \<open>
  Claim C9. For each of the nine task names, task resolution returns the pair of field names
  of the table, whatever the dataset, and the table has these nine names and no other.
\<close>

theorem task_table_resolution:
  "resolve_keys (Some ''cola'') datasets = Inr (''sentence'', None) \<and>
   resolve_keys (Some ''mnli'') datasets = Inr (''premise'', Some ''hypothesis'') \<and>
   resolve_keys (Some ''mrpc'') datasets = Inr (''sentence1'', Some ''sentence2'') \<and>
   resolve_keys (Some ''qnli'') datasets = Inr (''question'', Some ''sentence'') \<and>
   resolve_keys (Some ''qqp'') datasets = Inr (''question1'', Some ''question2'') \<and>
   resolve_keys (Some ''rte'') datasets = Inr (''sentence1'', Some ''sentence2'') \<and>
   resolve_keys (Some ''sst2'') datasets = Inr (''sentence'', None) \<and>
   resolve_keys (Some ''stsb'') datasets = Inr (''sentence1'', Some ''sentence2'') \<and>
   resolve_keys (Some ''wnli'') datasets = Inr (''sentence1'', Some ''sentence2'') \<and>
   map fst task_to_keys =
     [''cola'', ''mnli'', ''mrpc'', ''qnli'', ''qqp'', ''rte'', ''sst2'', ''stsb'', ''wnli'']"
  by (simp add: resolve_keys_def task_to_keys_def)

section \<open>The evaluation entry point: always an assertion failure\<close>

text \<open>
  Claim C10. For every source path and every optimize mode, and whatever the collaborators
  would do, \<open>evaluate_model\<close> raises AssertionError and has used no collaborator: no path is
  resolved, no parameters are run, no file is read, and nothing is returned.
\<close>

theorem evaluate_model_always_fails:
  "evaluate_model env src_path optimize_mode = (Inl (AssertionError []), [])"
  by (simp add: evaluate_model_def)

section \<open>Sorting and the direct table\<close>

lemma PStr_str_of: "list_all is_str xs \<Longrightarrow> map PStr (map str_of xs) = xs"
proof (induction xs)
  case Nil
  then show ?case by simp
next
  case (Cons x xs)
  then show ?case by (cases x) simp_all
qed

lemma set_PStr_sort: "list_all is_str xs \<Longrightarrow> set (map PStr (sort (map str_of xs))) = set xs"
proof -
  assume a: "list_all is_str xs"
  have "set (map PStr (sort (map str_of xs))) = set (map PStr (map str_of xs))"
    by (simp add: image_image)
  with PStr_str_of [OF a] show ?thesis by simp
qed

lemma str_of_inj_on: "list_all is_str xs \<Longrightarrow> inj_on str_of (set xs)"
proof (rule inj_onI)
  fix x y
  assume a: "list_all is_str xs" and "x \<in> set xs" "y \<in> set xs" "str_of x = str_of y"
  then have "is_str x" "is_str y" by (auto simp: list_all_iff)
  with \<open>str_of x = str_of y\<close> show "x = y" by (cases x; cases y) simp_all
qed

lemma sorted_const: "sorted (map (\<lambda>x. c) xs)"
  by (induction xs) auto

lemma num_of_PStr: "map num_of (map PStr ys) = map (\<lambda>x. 0) ys"
  by simp

lemma str_of_not_str: "list_all (\<lambda>v. \<not> is_str v) xs \<Longrightarrow> map str_of xs = map (\<lambda>x. []) xs"
proof (induction xs)
  case Nil
  then show ?case by simp
next
  case (Cons x xs)
  then show ?case by (cases x) simp_all
qed

lemma py_sort_homogeneous:
  assumes "homogeneous xs"
  shows "\<exists>ll. py_sort xs = Inr ll \<and> set ll = set xs \<and> length ll = length xs \<and>
              (distinct xs \<longrightarrow> distinct ll) \<and> sorted (map str_of ll) \<and> sorted (map num_of ll)"
proof (cases "list_all is_str xs")
  case True
  let ?ll = "map PStr (sort (map str_of xs))"
  have 1: "py_sort xs = Inr ?ll" using True by (simp add: py_sort_def)
  have 2: "set ?ll = set xs" by (rule set_PStr_sort [OF True])
  have 3: "distinct xs \<Longrightarrow> distinct ?ll"
    using str_of_inj_on [OF True] by (simp add: distinct_map inj_on_def)
  have 4: "sorted (map str_of ?ll)" by (simp add: comp_def)
  have 5: "sorted (map num_of ?ll)" unfolding num_of_PStr by (rule sorted_const)
  from 1 2 3 4 5 show ?thesis by simp
next
  case False
  with assms have nums: "list_all (\<lambda>v. \<not> is_str v) xs" by (simp add: homogeneous_def)
  let ?ll = "sort_key num_of xs"
  have 1: "py_sort xs = Inr ?ll" using False nums by (simp add: py_sort_def)
  have "list_all (\<lambda>v. \<not> is_str v) ?ll" using nums by (simp add: list_all_iff)
  then have 4: "sorted (map str_of ?ll)" by (simp add: str_of_not_str sorted_const)
  have 5: "sorted (map num_of ?ll)" by (rule sorted_sort_key)
  from 1 4 5 show ?thesis by simp
qed

lemma unique_cells:
  "columns ds name = Some (Cells vs) \<Longrightarrow>
   \<exists>us. unique ds name = Inr us \<and> set us = set vs \<and> distinct us"
  by (simp add: unique_def)

lemma homogeneous_subset: "homogeneous vs \<Longrightarrow> set us \<subseteq> set vs \<Longrightarrow> homogeneous us"
  by (auto simp: homogeneous_def list_all_iff)

lemma sorted_unique_labels_ok:
  assumes "datasets ''train'' = Some train" "columns train ''label'' = Some (Cells vs)"
          "homogeneous vs"
  shows "\<exists>ll. sorted_unique_labels datasets = Inr ll \<and> set ll = set vs \<and> distinct ll \<and>
              length ll = card (set vs) \<and> sorted (map str_of ll) \<and> sorted (map num_of ll)"
proof -
  from unique_cells [OF assms(2)] obtain us where
    u: "unique train ''label'' = Inr us" "set us = set vs" "distinct us" by blast
  have "homogeneous us" using homogeneous_subset [OF assms(3)] u(2) by simp
  from py_sort_homogeneous [OF this] obtain ll where
    l: "py_sort us = Inr ll" "set ll = set us" "length ll = length us" "distinct us \<longrightarrow> distinct ll"
       "sorted (map str_of ll)" "sorted (map num_of ll)" by blast
  have "length ll = card (set vs)" using l(3) u(2,3) distinct_card by metis
  with l u assms(1) show ?thesis by (simp add: sorted_unique_labels_def)
qed

lemma update_fresh: "k \<notin> fst ` set al \<Longrightarrow> AList.update k v al = al @ [(k, v)]"
  by (induction al) auto

lemma direct_table_aux:
  "distinct xs \<Longrightarrow> set xs \<inter> fst ` set acc = {} \<Longrightarrow>
   foldl (\<lambda>d (i, v). AList.update v (int i) d) acc (enumerate n xs) =
     acc @ zip xs (map int [n..<n + length xs])"
proof (induction xs arbitrary: acc n)
  case Nil
  then show ?case by simp
next
  case (Cons x xs)
  have fresh: "x \<notin> fst ` set acc" using Cons.prems(2) by auto
  have d: "distinct xs" and nx: "x \<notin> set xs" using Cons.prems(1) by auto
  have disj: "set xs \<inter> fst ` set (acc @ [(x, int n)]) = {}"
    using Cons.prems(2) nx by auto
  have "[n..<Suc (n + length xs)] = n # [Suc n..<Suc (n + length xs)]"
    by (rule upt_conv_Cons) simp
  then show ?case
    using Cons.IH [OF d disj, of "Suc n"] by (simp add: update_fresh [OF fresh])
qed

lemma direct_table_distinct:
  "distinct ll \<Longrightarrow> direct_table ll = zip ll (map int [0..<length ll])"
  using direct_table_aux [of ll "[]" 0] by (simp add: direct_table_def)

section \<open>What each part of the setup leaves on the object\<close>

lemma map_and_sample_state:
  "\<exists>lg. fst (map_and_sample env self datasets k1 k2 table) = self\<lparr>logged := lg\<rparr>"
proof -
  have same: "self = self\<lparr>logged := logged self\<rparr>" by simp
  show ?thesis
    unfolding map_and_sample_def Let_def
    by (auto split: sum.splits intro: exI [of _ "logged self"])
qed

lemma reconcile_labels_state:
  "\<exists>lt lg. fst (reconcile_labels env self datasets reg ll n k1 k2) =
     self\<lparr>self_label_to_id := lt, logged := lg\<rparr>"
proof (cases "create_config env self")
  case (Inl e)
  then have "fst (reconcile_labels env self datasets reg ll n k1 k2) = self"
    by (simp add: reconcile_labels_def)
  then show ?thesis
    by (intro exI [of _ "self_label_to_id self"] exI [of _ "logged self"]) simp
next
  case (Inr label2id)
  let ?r = "resolve_label_to_id (default_label2id env) label2id
              (task_name (self_data_args self)) reg ll n"
  let ?s = "self\<lparr>logged := logged self @ snd ?r\<rparr>"
  show ?thesis
  proof (cases "fst ?r")
    case (Inl e)
    have "fst (reconcile_labels env self datasets reg ll n k1 k2) = ?s"
      using Inr Inl by (simp add: reconcile_labels_def Let_def)
    then show ?thesis
      by (intro exI [of _ "self_label_to_id self"] exI [of _ "logged self @ snd ?r"]) simp
  next
    case (Inr table)
    from map_and_sample_state [of env "?s\<lparr>self_label_to_id := Some table\<rparr>" datasets k1 k2 table]
    obtain lg where
      "fst (map_and_sample env (?s\<lparr>self_label_to_id := Some table\<rparr>) datasets k1 k2 table) =
         ?s\<lparr>self_label_to_id := Some table, logged := lg\<rparr>" by auto
    then have "fst (reconcile_labels env self datasets reg ll n k1 k2) =
         self\<lparr>self_label_to_id := Some table, logged := lg\<rparr>"
      using \<open>create_config env self = Inr label2id\<close> Inr
      by (simp add: reconcile_labels_def Let_def)
    then show ?thesis by blast
  qed
qed

lemma labels_and_keys_classification:
  assumes "derive_labels (task_name (self_data_args self)) datasets =
             Inr \<lparr>loc_is_regression = False, loc_label_list = Some ll, loc_num_labels = n\<rparr>"
  shows "\<exists>k1 k2 lt lg. fst (labels_and_keys env self datasets) =
           self\<lparr>self_is_regression := Some False, self_label_list := Some ll,
                self_num_labels := Some n, self_sentence1_key := k1, self_sentence2_key := k2,
                self_label_to_id := lt, logged := lg\<rparr>"
proof -
  let ?s = "self\<lparr>self_is_regression := Some False, self_label_list := Some ll,
                 self_num_labels := Some n\<rparr>"
  show ?thesis
  proof (cases "resolve_keys (task_name (self_data_args self)) datasets")
    case (Inl e)
    then have "fst (labels_and_keys env self datasets) = ?s"
      using assms by (simp add: labels_and_keys_def Let_def)
    then show ?thesis
      by (intro exI [of _ "self_sentence1_key self"] exI [of _ "self_sentence2_key self"]
            exI [of _ "self_label_to_id self"] exI [of _ "logged self"]) simp
  next
    case (Inr keys)
    let ?t = "?s\<lparr>self_sentence1_key := Some (fst keys), self_sentence2_key := Some (snd keys)\<rparr>"
    from reconcile_labels_state [of env ?t datasets False ll n "fst keys" "snd keys"]
    obtain lg lt where
      "fst (reconcile_labels env ?t datasets False ll n (fst keys) (snd keys)) =
         ?t\<lparr>self_label_to_id := lt, logged := lg\<rparr>" by blast
    then have "fst (labels_and_keys env self datasets) = ?t\<lparr>self_label_to_id := lt, logged := lg\<rparr>"
      using assms Inr by (simp add: labels_and_keys_def Let_def)
    then show ?thesis by blast
  qed
qed

lemma create_datasets_loaded:
  assumes "dataset_request (self_data_args self) = Inr request"
      and "load_dataset env request = Inr datasets"
  shows "create_datasets env self =
           labels_and_keys env (self\<lparr>self_datasets := Some datasets\<rparr>) datasets"
  using assms by (simp add: create_datasets_def)

lemma classification_state:
  assumes "dataset_request (self_data_args self) = Inr request"
      and "load_dataset env request = Inr datasets"
      and "derive_labels (task_name (self_data_args self)) datasets =
             Inr \<lparr>loc_is_regression = False, loc_label_list = Some ll, loc_num_labels = n\<rparr>"
  shows "self_is_regression (fst (create_datasets env self)) = Some False \<and>
         self_label_list (fst (create_datasets env self)) = Some ll \<and>
         self_num_labels (fst (create_datasets env self)) = Some n"
proof -
  let ?s = "self\<lparr>self_datasets := Some datasets\<rparr>"
  have "derive_labels (task_name (self_data_args ?s)) datasets =
          Inr \<lparr>loc_is_regression = False, loc_label_list = Some ll, loc_num_labels = n\<rparr>"
    using assms(3) by simp
  from labels_and_keys_classification [OF this, of env]
  obtain k1 k2 lt lg where
    "fst (labels_and_keys env ?s datasets) =
       ?s\<lparr>self_is_regression := Some False, self_label_list := Some ll,
           self_num_labels := Some n, self_sentence1_key := k1, self_sentence2_key := k2,
           self_label_to_id := lt, logged := lg\<rparr>" by blast
  then show ?thesis using create_datasets_loaded [OF assms(1,2)] by simp
qed

section \<open>Regression inputs: the unbound label list\<close>

lemma derive_regression:
  "derive_labels task datasets = Inr loc \<Longrightarrow> loc_is_regression loc \<Longrightarrow>
   loc = \<lparr>loc_is_regression = True, loc_label_list = None, loc_num_labels = 1\<rparr>"
  unfolding derive_labels_def Let_def
  by (auto split: option.splits sum.splits if_splits)

lemma derive_stsb:
  "derive_labels (Some ''stsb'') datasets =
     Inr \<lparr>loc_is_regression = True, loc_label_list = None, loc_num_labels = 1\<rparr>"
  by (simp add: derive_labels_def)

lemma derive_float:
  "train_label_feature datasets = Inr f \<Longrightarrow> feature_dtype f \<in> {''float32'', ''float64''} \<Longrightarrow>
   derive_labels None datasets =
     Inr \<lparr>loc_is_regression = True, loc_label_list = None, loc_num_labels = 1\<rparr>"
  by (simp add: derive_labels_def)

lemma derive_regression_cases:
  assumes "derive_labels task datasets = Inr loc" "loc_is_regression loc"
  shows "task = Some ''stsb'' \<or>
    (task = None \<and> (\<exists>f. train_label_feature datasets = Inr f \<and>
                          feature_dtype f \<in> {''float32'', ''float64''}))"
proof (cases task)
  case None
  with assms show ?thesis
    unfolding derive_labels_def Let_def
    by (cases "train_label_feature datasets") (auto split: sum.splits if_splits)
next
  case (Some t)
  with assms show ?thesis
    unfolding derive_labels_def Let_def
    by (cases "t = ''stsb''") (auto split: sum.splits)
qed

lemma derive_regression_iff:
  "(\<exists>loc. derive_labels task datasets = Inr loc \<and> loc_is_regression loc) \<longleftrightarrow>
   (task = Some ''stsb'' \<or>
    (task = None \<and> (\<exists>f. train_label_feature datasets = Inr f \<and>
                          feature_dtype f \<in> {''float32'', ''float64''})))"
proof
  assume "\<exists>loc. derive_labels task datasets = Inr loc \<and> loc_is_regression loc"
  then show "task = Some ''stsb'' \<or>
    (task = None \<and> (\<exists>f. train_label_feature datasets = Inr f \<and>
                          feature_dtype f \<in> {''float32'', ''float64''}))"
    using derive_regression_cases by blast
next
  assume "task = Some ''stsb'' \<or>
    (task = None \<and> (\<exists>f. train_label_feature datasets = Inr f \<and>
                          feature_dtype f \<in> {''float32'', ''float64''}))"
  then show "\<exists>loc. derive_labels task datasets = Inr loc \<and> loc_is_regression loc"
    using derive_stsb [of datasets] derive_float [of datasets] by fastforce
qed

lemma labels_and_keys_regression:
  assumes "derive_labels (task_name (self_data_args self)) datasets = Inr loc"
      and "loc_is_regression loc"
  shows "labels_and_keys env self datasets =
           (self\<lparr>self_is_regression := Some True\<rparr>, Some (UnboundLocalError ''label_list''))"
  using assms derive_regression [OF assms]
  by (simp add: labels_and_keys_def Let_def)

text \<open>
  Claim C3. Take a run whose dataset has loaded. The flag \<^verbatim>\<open>is_regression\<close> is derived as
  true exactly when the task name is stsb, or no task name is given and the label column of
  the training split has dtype float32 or float64. In every such run \<open>create_datasets\<close>
  raises UnboundLocalError for \<^verbatim>\<open>label_list\<close> at the assignment of line 186: the object has
  its datasets and \<^verbatim>\<open>is_regression = True\<close> and nothing else, so the label list and the
  label count are never stored and the method does not return normally.
\<close>

theorem regression_run_raises:
  assumes "dataset_request (self_data_args self) = Inr request"
      and "load_dataset env request = Inr datasets"
  shows "((\<exists>loc. derive_labels (task_name (self_data_args self)) datasets = Inr loc \<and>
                 loc_is_regression loc) \<longleftrightarrow>
          (task_name (self_data_args self) = Some ''stsb'' \<or>
           (task_name (self_data_args self) = None \<and>
            (\<exists>f. train_label_feature datasets = Inr f \<and>
                 feature_dtype f \<in> {''float32'', ''float64''})))) \<and>
         ((\<exists>loc. derive_labels (task_name (self_data_args self)) datasets = Inr loc \<and>
                 loc_is_regression loc) \<longrightarrow>
          create_datasets env self =
            (self\<lparr>self_datasets := Some datasets, self_is_regression := Some True\<rparr>,
             Some (UnboundLocalError ''label_list'')))"
proof (rule conjI)
  show "(\<exists>loc. derive_labels (task_name (self_data_args self)) datasets = Inr loc \<and>
               loc_is_regression loc) \<longleftrightarrow>
        (task_name (self_data_args self) = Some ''stsb'' \<or>
         (task_name (self_data_args self) = None \<and>
          (\<exists>f. train_label_feature datasets = Inr f \<and>
               feature_dtype f \<in> {''float32'', ''float64''})))"
    by (rule derive_regression_iff)
next
  show "(\<exists>loc. derive_labels (task_name (self_data_args self)) datasets = Inr loc \<and>
                 loc_is_regression loc) \<longrightarrow>
          create_datasets env self =
            (self\<lparr>self_datasets := Some datasets, self_is_regression := Some True\<rparr>,
             Some (UnboundLocalError ''label_list''))"
  proof
    assume "\<exists>loc. derive_labels (task_name (self_data_args self)) datasets = Inr loc \<and>
                  loc_is_regression loc"
    then obtain loc where
      d: "derive_labels (task_name (self_data_args self)) datasets = Inr loc"
      and r: "loc_is_regression loc" by blast
    let ?s = "self\<lparr>self_datasets := Some datasets\<rparr>"
    have "derive_labels (task_name (self_data_args ?s)) datasets = Inr loc" using d by simp
    from labels_and_keys_regression [OF this r, of env]
    show "create_datasets env self =
            (self\<lparr>self_datasets := Some datasets, self_is_regression := Some True\<rparr>,
             Some (UnboundLocalError ''label_list''))"
      using assms by (simp add: create_datasets_def)
  qed
qed

lemma score_request:
  "dataset_request (self_data_args score_xp) =
     Inr (LoadFiles ''csv'' ''score/train.csv'' (Some ''score/dev.csv''))"
  by (simp add: score_xp_def new_xp_def file_args_def dataset_request_def endswith_def)

lemma score_load:
  "load_dataset (example_env l) (LoadFiles ''csv'' ''score/train.csv'' (Some ''score/dev.csv'')) =
     Inr score_datasets"
  by (simp add: example_env_def example_loader_def score_datasets_def)

lemma score_task: "task_name (self_data_args score_xp) = None"
  by (simp add: score_xp_def new_xp_def file_args_def)

lemma score_feature: "train_label_feature score_datasets = Inr (Value ''float64'')"
  by (simp add: train_label_feature_def score_datasets_def score_split_def)

text \<open>
  The run on the csv dataset with float labels raises at line 186.
\<close>

theorem regression_run_raises_witness:
  "create_datasets (example_env []) score_xp =
     (score_xp\<lparr>self_datasets := Some score_datasets, self_is_regression := Some True\<rparr>,
      Some (UnboundLocalError ''label_list''))"
  using regression_run_raises [OF score_request score_load, of "[]"]
  by (simp add: score_task score_feature)

section \<open>The task stsb\<close>

lemma stsb_request: "dataset_request (self_data_args stsb_xp) = Inr (LoadHub ''glue'' ''stsb'')"
  by (simp add: stsb_xp_def new_xp_def task_args_def dataset_request_def)

lemma stsb_load: "load_dataset (example_env l) (LoadHub ''glue'' ''stsb'') = Inr stsb_datasets"
  by (simp add: example_env_def example_loader_def stsb_datasets_def)

lemma stsb_task: "task_name (self_data_args stsb_xp) = Some ''stsb''"
  by (simp add: stsb_xp_def new_xp_def task_args_def)

lemma stsb_labels_and_keys:
  "labels_and_keys (example_env l) (stsb_xp\<lparr>self_datasets := Some stsb_datasets\<rparr>) stsb_datasets =
     (stsb_xp\<lparr>self_datasets := Some stsb_datasets, self_is_regression := Some True\<rparr>,
      Some (UnboundLocalError ''label_list''))"
  using labels_and_keys_regression
    [of "stsb_xp\<lparr>self_datasets := Some stsb_datasets\<rparr>" stsb_datasets
        "\<lparr>loc_is_regression = True, loc_label_list = None, loc_num_labels = 1\<rparr>" "example_env l"]
  by (simp add: stsb_task derive_stsb)

text \<open>
  Claim C2, at the task stsb. The run does not complete: it raises UnboundLocalError for
  \<^verbatim>\<open>label_list\<close>, with \<^verbatim>\<open>is_regression\<close> stored as true and \<^verbatim>\<open>num_labels\<close> never
  assigned on the object.
\<close>

theorem stsb_run_raises:
  "create_datasets (example_env []) stsb_xp =
     (stsb_xp\<lparr>self_datasets := Some stsb_datasets, self_is_regression := Some True\<rparr>,
      Some (UnboundLocalError ''label_list'')) \<and>
   self_num_labels (fst (create_datasets (example_env []) stsb_xp)) = None"
  by (simp add: create_datasets_def stsb_request stsb_load stsb_labels_and_keys)
     (simp add: stsb_xp_def new_xp_def)

section \<open>The label space without a task name\<close>

lemma derive_classification_no_task:
  assumes "datasets ''train'' = Some train" "features train ''label'' = Some f"
          "feature_dtype f \<notin> {''float32'', ''float64''}"
          "columns train ''label'' = Some (Cells vs)" "homogeneous vs"
  shows "\<exists>ll. derive_labels None datasets =
               Inr \<lparr>loc_is_regression = False, loc_label_list = Some ll,
                    loc_num_labels = card (set vs)\<rparr> \<and>
              set ll = set vs \<and> distinct ll \<and> length ll = card (set vs) \<and>
              sorted (map str_of ll) \<and> sorted (map num_of ll)"
proof -
  from sorted_unique_labels_ok [of datasets train vs] assms(1,4,5) obtain ll where
    l: "sorted_unique_labels datasets = Inr ll" "set ll = set vs" "distinct ll"
       "length ll = card (set vs)" "sorted (map str_of ll)" "sorted (map num_of ll)"
    by blast
  have "train_label_feature datasets = Inr f"
    using assms(1,2) by (simp add: train_label_feature_def)
  then have "derive_labels None datasets =
      Inr \<lparr>loc_is_regression = False, loc_label_list = Some ll, loc_num_labels = card (set vs)\<rparr>"
    using assms(3) l(1,4) by (simp add: derive_labels_def)
  with l show ?thesis by blast
qed

lemma derive_no_task_flag:
  assumes "train_label_feature datasets = Inr f" "derive_labels None datasets = Inr loc"
  shows "loc_is_regression loc \<longleftrightarrow> feature_dtype f \<in> {''float32'', ''float64''}"
  using assms unfolding derive_labels_def Let_def
  by (auto split: sum.splits if_splits)

text \<open>
  Claim C4. With no task name, and a label feature on the training split: if its dtype is
  float32 or float64 the derivation sets \<^verbatim>\<open>is_regression\<close> to true and \<^verbatim>\<open>num_labels\<close> to 1;
  whenever the derivation returns, \<^verbatim>\<open>is_regression\<close> is true exactly for these two dtypes;
  and for any other dtype, with a label column of one type, the label list is the sorted
  list of the distinct values of the column and \<^verbatim>\<open>num_labels\<close> is their number, with
  \<^verbatim>\<open>is_regression\<close> false. In that last case a run on the loaded dataset stores these
  values on the object.
\<close>

theorem no_task_label_space:
  assumes "datasets ''train'' = Some train" and "features train ''label'' = Some f"
  shows "(feature_dtype f \<in> {''float32'', ''float64''} \<longrightarrow>
            derive_labels None datasets =
              Inr \<lparr>loc_is_regression = True, loc_label_list = None, loc_num_labels = 1\<rparr>) \<and>
         (\<forall>loc. derive_labels None datasets = Inr loc \<longrightarrow>
            (loc_is_regression loc \<longleftrightarrow> feature_dtype f \<in> {''float32'', ''float64''})) \<and>
         (feature_dtype f \<notin> {''float32'', ''float64''} \<and>
          columns train ''label'' = Some (Cells vs) \<and> homogeneous vs \<longrightarrow>
            (\<exists>ll. derive_labels None datasets =
                    Inr \<lparr>loc_is_regression = False, loc_label_list = Some ll,
                         loc_num_labels = card (set vs)\<rparr> \<and>
                  set ll = set vs \<and> distinct ll \<and> length ll = card (set vs) \<and>
                  sorted (map str_of ll) \<and> sorted (map num_of ll) \<and>
                  (task_name (self_data_args self) = None \<and>
                   dataset_request (self_data_args self) = Inr request \<and>
                   load_dataset env request = Inr datasets \<longrightarrow>
                     self_is_regression (fst (create_datasets env self)) = Some False \<and>
                     self_label_list (fst (create_datasets env self)) = Some ll \<and>
                     self_num_labels (fst (create_datasets env self)) = Some (card (set vs)))))"
proof (intro conjI impI allI)
  have tf: "train_label_feature datasets = Inr f"
    using assms by (simp add: train_label_feature_def)
  {
    assume "feature_dtype f \<in> {''float32'', ''float64''}"
    then show "derive_labels None datasets =
        Inr \<lparr>loc_is_regression = True, loc_label_list = None, loc_num_labels = 1\<rparr>"
      by (rule derive_float [OF tf])
  }
  {
    fix loc
    assume "derive_labels None datasets = Inr loc"
    then show "loc_is_regression loc \<longleftrightarrow> feature_dtype f \<in> {''float32'', ''float64''}"
      by (rule derive_no_task_flag [OF tf])
  }
  {
    assume a: "feature_dtype f \<notin> {''float32'', ''float64''} \<and>
            columns train ''label'' = Some (Cells vs) \<and> homogeneous vs"
    from derive_classification_no_task [of datasets train f vs] assms a obtain ll where
      l: "derive_labels None datasets =
            Inr \<lparr>loc_is_regression = False, loc_label_list = Some ll,
                 loc_num_labels = card (set vs)\<rparr>"
         "set ll = set vs" "distinct ll" "length ll = card (set vs)"
         "sorted (map str_of ll)" "sorted (map num_of ll)" by blast
    have "task_name (self_data_args self) = None \<and>
          dataset_request (self_data_args self) = Inr request \<and>
          load_dataset env request = Inr datasets \<longrightarrow>
            self_is_regression (fst (create_datasets env self)) = Some False \<and>
            self_label_list (fst (create_datasets env self)) = Some ll \<and>
            self_num_labels (fst (create_datasets env self)) = Some (card (set vs))"
      using classification_state [of self request env datasets ll "card (set vs)"] l(1)
      by simp
    with l show "\<exists>ll. derive_labels None datasets =
                    Inr \<lparr>loc_is_regression = False, loc_label_list = Some ll,
                         loc_num_labels = card (set vs)\<rparr> \<and>
                  set ll = set vs \<and> distinct ll \<and> length ll = card (set vs) \<and>
                  sorted (map str_of ll) \<and> sorted (map num_of ll) \<and>
                  (task_name (self_data_args self) = None \<and>
                   dataset_request (self_data_args self) = Inr request \<and>
                   load_dataset env request = Inr datasets \<longrightarrow>
                     self_is_regression (fst (create_datasets env self)) = Some False \<and>
                     self_label_list (fst (create_datasets env self)) = Some ll \<and>
                     self_num_labels (fst (create_datasets env self)) = Some (card (set vs)))"
      by blast
  }
qed

lemma sort_pos_neg: "py_sort [PStr ''pos'', PStr ''neg''] = Inr [PStr ''neg'', PStr ''pos'']"
  by (simp add: py_sort_def)

lemma derive_sent: "derive_labels None sentiment_datasets =
   Inr \<lparr>loc_is_regression = False, loc_label_list = Some [PStr ''neg'', PStr ''pos''], loc_num_labels = 2\<rparr>"
  by (simp add: derive_labels_def train_label_feature_def sentiment_datasets_def sentiment_split_def
      sorted_unique_labels_def unique_def sort_pos_neg)

lemma sentiment_request:
  "dataset_request (self_data_args sentiment_xp) =
     Inr (LoadFiles ''csv'' ''sentiment/train.csv'' (Some ''sentiment/dev.csv''))"
  by (simp add: sentiment_xp_def new_xp_def file_args_def dataset_request_def endswith_def)

lemma sentiment_load:
  "load_dataset (example_env l)
     (LoadFiles ''csv'' ''sentiment/train.csv'' (Some ''sentiment/dev.csv'')) =
     Inr sentiment_datasets"
  by (simp add: example_env_def example_loader_def sentiment_datasets_def)

lemma sentiment_task: "task_name (self_data_args sentiment_xp) = None"
  by (simp add: sentiment_xp_def new_xp_def file_args_def)

lemma sentiment_train: "sentiment_datasets ''train'' = Some sentiment_split"
  by (simp add: sentiment_datasets_def)

lemma sentiment_feature: "features sentiment_split ''label'' = Some (Value ''string'')"
  by (simp add: sentiment_split_def)

lemma sentiment_column:
  "columns sentiment_split ''label'' = Some (Cells [PStr ''pos'', PStr ''neg'', PStr ''pos''])"
  by (simp add: sentiment_split_def)

lemma sentiment_homogeneous: "homogeneous [PStr ''pos'', PStr ''neg'', PStr ''pos'']"
  by (simp add: homogeneous_def)

lemma sentiment_names:
  "filter (\<lambda>name. name \<noteq> ''label'') (column_names sentiment_split) \<noteq> []"
  by (simp add: sentiment_split_def)

lemma example_config: "\<exists>label2id. create_config (example_env l) s = Inr label2id"
  by (simp add: example_env_def)

text \<open>
  The csv dataset with the labels pos, neg, pos: two labels, sorted, and no regression.
\<close>

theorem no_task_label_space_witness:
  "derive_labels None sentiment_datasets =
     Inr \<lparr>loc_is_regression = False, loc_label_list = Some [PStr ''neg'', PStr ''pos''],
          loc_num_labels = 2\<rparr> \<and>
   self_is_regression (fst (create_datasets (example_env []) sentiment_xp)) = Some False \<and>
   self_num_labels (fst (create_datasets (example_env []) sentiment_xp)) = Some 2"
proof -
  let ?vs = "[PStr ''pos'', PStr ''neg'', PStr ''pos'']"
  let ?r = "fst (create_datasets (example_env []) sentiment_xp)"
  note T = no_task_label_space [where datasets = sentiment_datasets and train = sentiment_split
      and f = "Value ''string''" and vs = ?vs and self = sentiment_xp and env = "example_env []"
      and request = "LoadFiles ''csv'' ''sentiment/train.csv'' (Some ''sentiment/dev.csv'')",
      OF sentiment_train sentiment_feature, THEN conjunct2, THEN conjunct2, THEN mp]
  have "\<exists>ll. derive_labels None sentiment_datasets =
               Inr \<lparr>loc_is_regression = False, loc_label_list = Some ll,
                    loc_num_labels = card (set ?vs)\<rparr> \<and>
             set ll = set ?vs \<and> distinct ll \<and> length ll = card (set ?vs) \<and>
             sorted (map str_of ll) \<and> sorted (map num_of ll) \<and>
             (task_name (self_data_args sentiment_xp) = None \<and>
              dataset_request (self_data_args sentiment_xp) =
                Inr (LoadFiles ''csv'' ''sentiment/train.csv'' (Some ''sentiment/dev.csv'')) \<and>
              load_dataset (example_env [])
                (LoadFiles ''csv'' ''sentiment/train.csv'' (Some ''sentiment/dev.csv'')) =
                Inr sentiment_datasets \<longrightarrow>
                self_is_regression ?r = Some False \<and> self_label_list ?r = Some ll \<and>
                self_num_labels ?r = Some (card (set ?vs)))"
    by (rule T) (simp add: sentiment_column sentiment_homogeneous)
  then obtain ll where
    d: "derive_labels None sentiment_datasets =
          Inr \<lparr>loc_is_regression = False, loc_label_list = Some ll,
               loc_num_labels = card (set ?vs)\<rparr>" and
    fin: "self_is_regression ?r = Some False \<and> self_num_labels ?r = Some (card (set ?vs))"
    using sentiment_task sentiment_request sentiment_load [of "[]"] by blast
  have "set ?vs = {PStr ''pos'', PStr ''neg''}" by auto
  then have c: "card (set ?vs) = 2" by (simp only: card_insert_if) simp
  from fin show ?thesis unfolding c derive_sent by simp
qed

section \<open>The direct table without a task name\<close>

lemma score_labels_and_keys:
  "labels_and_keys (example_env l) (score_xp\<lparr>self_datasets := Some score_datasets\<rparr>) score_datasets =
     (score_xp\<lparr>self_datasets := Some score_datasets, self_is_regression := Some True\<rparr>,
      Some (UnboundLocalError ''label_list''))"
  using labels_and_keys_regression
    [of "score_xp\<lparr>self_datasets := Some score_datasets\<rparr>" score_datasets
        "\<lparr>loc_is_regression = True, loc_label_list = None, loc_num_labels = 1\<rparr>" "example_env l"]
  by (simp add: score_task derive_float [OF score_feature])

text \<open>
  Claim C5 as stated fails. The run on the csv dataset with float labels has no task name,
  and it raises before line 235: no label-to-id table is built.
\<close>

theorem no_task_regression_builds_no_table:
  "task_name (self_data_args score_xp) = None \<and>
   snd (create_datasets (example_env []) score_xp) = Some (UnboundLocalError ''label_list'') \<and>
   self_label_to_id (fst (create_datasets (example_env []) score_xp)) = None"
  by (simp add: create_datasets_def score_request score_load score_labels_and_keys score_task)
     (simp add: score_xp_def new_xp_def)

lemma reconcile_no_task:
  assumes "task_name (self_data_args self) = None" "create_config env self = Inr label2id"
  shows "self_label_to_id (fst (reconcile_labels env self datasets reg ll n k1 k2)) =
           Some (Some (direct_table ll))"
proof -
  let ?s = "self\<lparr>logged := logged self @ []\<rparr>\<lparr>self_label_to_id := Some (Some (direct_table ll))\<rparr>"
  have r: "resolve_label_to_id (default_label2id env) label2id None reg ll n =
          (Inr (Some (direct_table ll)), [])"
    by (simp add: resolve_label_to_id_def)
  from map_and_sample_state [of env ?s datasets k1 k2 "Some (direct_table ll)"]
  obtain lg where
    "fst (map_and_sample env ?s datasets k1 k2 (Some (direct_table ll))) = ?s\<lparr>logged := lg\<rparr>"
    by blast
  then show ?thesis using assms r by (simp add: reconcile_labels_def Let_def)
qed

lemma resolve_keys_no_task:
  assumes "datasets ''train'' = Some train"
          "filter (\<lambda>name. name \<noteq> ''label'') (column_names train) \<noteq> []"
  shows "\<exists>keys. resolve_keys None datasets = Inr keys"
  using assms unfolding resolve_keys_def Let_def
  by (cases "filter (\<lambda>name. name \<noteq> ''label'') (column_names train)") simp_all

lemma labels_and_keys_no_task:
  assumes "task_name (self_data_args self) = None"
      and "derive_labels None datasets =
             Inr \<lparr>loc_is_regression = False, loc_label_list = Some ll, loc_num_labels = n\<rparr>"
      and "resolve_keys None datasets = Inr keys"
      and "\<And>s. \<exists>label2id. create_config env s = Inr label2id"
  shows "self_label_to_id (fst (labels_and_keys env self datasets)) =
           Some (Some (direct_table ll))"
proof -
  let ?t = "self\<lparr>self_is_regression := Some False\<rparr>\<lparr>self_label_list := Some ll,
                 self_num_labels := Some n\<rparr>\<lparr>self_sentence1_key := Some (fst keys),
                 self_sentence2_key := Some (snd keys)\<rparr>"
  from assms(4) obtain label2id where c: "create_config env ?t = Inr label2id" by blast
  have "task_name (self_data_args ?t) = None" using assms(1) by simp
  from reconcile_no_task [OF this c]
  show ?thesis using assms(1,2,3) by (simp add: labels_and_keys_def Let_def)
qed

text \<open>
  Claim C5, amended. In every run with no task name whose dataset loads, whose label column
  is of one type and not of dtype float32 or float64, whose training split has a column
  other than the label, and whose model config is created, \<open>create_datasets\<close> stores as
  \<^verbatim>\<open>label_to_id\<close> the table that maps each value of the sorted label list to its position
  in that list.
\<close>

theorem direct_table_built:
  assumes "task_name (self_data_args self) = None"
      and "dataset_request (self_data_args self) = Inr request"
      and "load_dataset env request = Inr datasets"
      and "datasets ''train'' = Some train"
      and "features train ''label'' = Some f"
      and "feature_dtype f \<notin> {''float32'', ''float64''}"
      and "columns train ''label'' = Some (Cells vs)"
      and "homogeneous vs"
      and "filter (\<lambda>name. name \<noteq> ''label'') (column_names train) \<noteq> []"
      and "\<And>s. \<exists>label2id. create_config env s = Inr label2id"
  shows "\<exists>ll. self_label_list (fst (create_datasets env self)) = Some ll \<and>
              set ll = set vs \<and> distinct ll \<and>
              sorted (map str_of ll) \<and> sorted (map num_of ll) \<and>
              self_label_to_id (fst (create_datasets env self)) =
                Some (Some (zip ll (map int [0..<length ll])))"
proof -
  from derive_classification_no_task [of datasets train f vs] assms(4-8) obtain ll where
    l: "derive_labels None datasets =
          Inr \<lparr>loc_is_regression = False, loc_label_list = Some ll,
               loc_num_labels = card (set vs)\<rparr>"
       "set ll = set vs" "distinct ll" "sorted (map str_of ll)" "sorted (map num_of ll)"
    by blast
  from resolve_keys_no_task [of datasets train] assms(4,9) obtain keys where
    k: "resolve_keys None datasets = Inr keys" by blast
  let ?s = "self\<lparr>self_datasets := Some datasets\<rparr>"
  have t: "task_name (self_data_args ?s) = None" using assms(1) by simp
  have "self_label_to_id (fst (labels_and_keys env ?s datasets)) = Some (Some (direct_table ll))"
    by (rule labels_and_keys_no_task [OF t l(1) k assms(10)])
  then have 1: "self_label_to_id (fst (create_datasets env self)) =
      Some (Some (zip ll (map int [0..<length ll])))"
    using create_datasets_loaded [OF assms(2,3)] direct_table_distinct [OF l(3)] by simp
  have 2: "self_label_list (fst (create_datasets env self)) = Some ll"
    using classification_state [of self request env datasets ll "card (set vs)"] assms(1,2,3) l(1)
    by simp
  from 1 2 l show ?thesis by blast
qed

lemma sentiment_label_list:
  "self_label_list (fst (create_datasets (example_env l) sentiment_xp)) =
     Some [PStr ''neg'', PStr ''pos'']"
  using classification_state [where self = sentiment_xp and env = "example_env l"
      and datasets = sentiment_datasets and ll = "[PStr ''neg'', PStr ''pos'']" and n = 2
      and request = "LoadFiles ''csv'' ''sentiment/train.csv'' (Some ''sentiment/dev.csv'')"]
  by (simp add: sentiment_task derive_sent sentiment_request sentiment_load)

text \<open>
  On the same dataset the table is \<^verbatim>\<open>{"neg": 0, "pos": 1}\<close>.
\<close>

theorem direct_table_built_witness:
  "self_label_list (fst (create_datasets (example_env []) sentiment_xp)) =
     Some [PStr ''neg'', PStr ''pos''] \<and>
   self_label_to_id (fst (create_datasets (example_env []) sentiment_xp)) =
     Some (Some [(PStr ''neg'', 0), (PStr ''pos'', 1)])"
proof -
  let ?r = "fst (create_datasets (example_env []) sentiment_xp)"
  have "\<exists>ll. self_label_list ?r = Some ll \<and> set ll = set [PStr ''pos'', PStr ''neg'', PStr ''pos''] \<and>
          distinct ll \<and> sorted (map str_of ll) \<and> sorted (map num_of ll) \<and>
          self_label_to_id ?r = Some (Some (zip ll (map int [0..<length ll])))"
    by (rule direct_table_built [where train = sentiment_split and f = "Value ''string''"
          and datasets = sentiment_datasets
          and request = "LoadFiles ''csv'' ''sentiment/train.csv'' (Some ''sentiment/dev.csv'')"])
       (simp_all add: sentiment_task sentiment_request sentiment_load sentiment_train
          sentiment_feature sentiment_column sentiment_homogeneous sentiment_names
          example_config)
  then obtain ll where
    1: "self_label_list ?r = Some ll" and
    2: "self_label_to_id ?r = Some (Some (zip ll (map int [0..<length ll])))" by blast
  from 1 have "ll = [PStr ''neg'', PStr ''pos'']" using sentiment_label_list [of "[]"] by simp
  with 1 2 show ?thesis by simp
qed

section \<open>The run on MRPC with a model that names the labels in another order\<close>

lemma mrpc_request: "dataset_request (task_args ''mrpc'') = Inr (LoadHub ''glue'' ''mrpc'')"
  by (simp add: task_args_def dataset_request_def)

lemma mrpc_load: "load_dataset (example_env l) (LoadHub ''glue'' ''mrpc'') = Inr mrpc_datasets"
  by (simp add: example_env_def example_loader_def mrpc_datasets_def)

lemma mrpc_args: "self_data_args mrpc_xp = task_args ''mrpc''"
  by (simp add: mrpc_xp_def new_xp_def)

lemma mrpc_derive:
  "derive_labels (Some ''mrpc'') mrpc_datasets =
     Inr \<lparr>loc_is_regression = False,
          loc_label_list = Some [PStr ''not_equivalent'', PStr ''equivalent''],
          loc_num_labels = 2\<rparr>"
  by (simp add: derive_labels_def train_label_feature_def mrpc_datasets_def mrpc_split_def)

lemma mrpc_keys: "resolve_keys (Some ''mrpc'') datasets = Inr (''sentence1'', Some ''sentence2'')"
  by (simp add: resolve_keys_def task_to_keys_def)

lemma default_labels_two: "default_label2id (example_env l) 2 = default_two"
  by (simp add: example_env_def default_two_def upt_rec numeral_2_eq_2) code_simp

lemma swapped_not_default: "\<not> dict_eq swapped_two (default_label2id (example_env l) 2)"
  by (simp add: default_labels_two dict_eq_def swapped_two_def default_two_def)

lemma classification_resolve:
  "resolve_label_to_id fresh label2id (Some t) False label_list n = (Inr None, [])"
  by (simp add: resolve_label_to_id_def)

lemma mrpc_preprocess:
  "preprocess_function example_tokenizer ''sentence1'' (Some ''sentence2'') p m None
     (columns mrpc_split) =
   Inr [''input_ids'' \<mapsto> Tokens [[101, 102], [101, 102], [101, 102]]]"
  by (simp add: preprocess_function_def example_tokenizer_def mrpc_split_def)

lemma mrpc_map:
  "\<exists>mapped train.
     dataset_map (example_env l)
       (preprocess_function (env_tokenizer (example_env l)) ''sentence1'' (Some ''sentence2'') p m
          None) c mrpc_datasets = Inr mapped \<and>
     mapped ''train'' = Some train \<and> num_rows train = 3 \<and>
     mapped ''validation'' \<noteq> None \<and> mapped ''test'' \<noteq> None"
  by (simp add: example_env_def mrpc_preprocess mrpc_datasets_def) (simp add: mrpc_split_def)

lemma mrpc_tail:
  assumes "self_data_args s = task_args ''mrpc''"
  shows "map_and_sample (example_env l) s mrpc_datasets ''sentence1'' (Some ''sentence2'') None =
           (s\<lparr>logged := logged s @ [Info_sample 0, Info_sample 1, Info_sample 2]\<rparr>, None)"
proof -
  let ?p = "fst (padding_strategy (task_args ''mrpc''))"
  let ?m = "snd (padding_strategy (task_args ''mrpc''))"
  from mrpc_map [of l ?p ?m "\<not> overwrite_cache (task_args ''mrpc'')"]
  obtain mapped train where
    m: "dataset_map (example_env l)
          (preprocess_function (env_tokenizer (example_env l)) ''sentence1'' (Some ''sentence2'')
             ?p ?m None) (\<not> overwrite_cache (task_args ''mrpc'')) mrpc_datasets = Inr mapped"
       "mapped ''train'' = Some train" "num_rows train = 3"
       "mapped ''validation'' \<noteq> None" "mapped ''test'' \<noteq> None" by blast
  have t: "task_name (task_args ''mrpc'') = Some ''mrpc''" by (simp add: task_args_def)
  have p: "pick_splits (Some ''mrpc'') mapped = Inr train"
    using m(2,4,5) by (auto simp add: pick_splits_def)
  have r: "random_sample (example_env l) 3 3 = [0, 1, 2]"
    by (simp add: example_env_def upt_rec numeral_3_eq_3)
  have g: "log_samples (example_env l) train = Inr [Info_sample 0, Info_sample 1, Info_sample 2]"
    using m(3) r by (simp add: log_samples_def)
  show ?thesis
    using m(1) p g t assms by (simp add: map_and_sample_def Let_def)
qed

lemma mrpc_run:
  "create_datasets (example_env label2id) mrpc_xp =
      (mrpc_xp\<lparr>self_datasets := Some mrpc_datasets, self_is_regression := Some False,
          self_label_list := Some [PStr ''not_equivalent'', PStr ''equivalent''],
          self_num_labels := Some 2, self_sentence1_key := Some ''sentence1'',
          self_sentence2_key := Some (Some ''sentence2''), self_label_to_id := Some None,
          logged := [Info_sample 0, Info_sample 1, Info_sample 2]\<rparr>, None)"
proof -
  have c: "\<And>s. create_config (example_env label2id) s = Inr label2id"
    by (simp add: example_env_def)
  have t: "task_name (task_args ''mrpc'') = Some ''mrpc''" by (simp add: task_args_def)
  show ?thesis
    by (simp add: create_datasets_def mrpc_request mrpc_load labels_and_keys_def mrpc_args t
          mrpc_derive mrpc_keys reconcile_labels_def c classification_resolve mrpc_tail Let_def)
       (simp add: mrpc_xp_def new_xp_def)
qed

lemma lower_swapped:
  "lower ''EQUIVALENT'' = ''equivalent''" "lower ''NOT_EQUIVALENT'' = ''not_equivalent''"
  by code_simp+

lemma lower_keys_swapped:
  "lower_keys swapped_two = [(''equivalent'', 0), (''not_equivalent'', 1)]"
  by (simp add: lower_keys_def swapped_two_def lower_swapped)

lemma swapped_same_names:
  "PStr ` lower ` fst ` set swapped_two = set [PStr ''not_equivalent'', PStr ''equivalent'']"
  by (auto simp add: swapped_two_def lower_swapped)

lemma swapped_remap:
  "label_remap swapped_two [PStr ''not_equivalent'', PStr ''equivalent''] 2 =
     (Inr (Some [(PInt 0, 1), (PInt 1, 0)]), [])"
  by (simp add: label_remap_def lower_keys_swapped py_sort_def Let_def upt_rec numeral_2_eq_2)

text \<open>
  Claim C1, at the task mrpc with a model whose \<^verbatim>\<open>label2id\<close> names the two labels in upper
  case and in the other order. The run completes; a task name is given, the model's table
  is not the default one, and the lower-cased model label names are the dataset's label
  names; yet no table is stored (\<^verbatim>\<open>label_to_id\<close> is \<^verbatim>\<open>None\<close>) and the only records logged are
  the three samples. The remap branch, lines 224 to 233, would build the table
  \<^verbatim>\<open>{0: 1, 1: 0}\<close> here; it is not entered, because its guard asks for \<^verbatim>\<open>is_regression\<close>,
  which is false in this run.
\<close>

theorem swapped_labels_no_remap:
  "snd (create_datasets (example_env swapped_two) mrpc_xp) = None \<and>
   task_name (self_data_args mrpc_xp) = Some ''mrpc'' \<and>
   self_is_regression (fst (create_datasets (example_env swapped_two) mrpc_xp)) = Some False \<and>
   self_label_list (fst (create_datasets (example_env swapped_two) mrpc_xp)) =
     Some [PStr ''not_equivalent'', PStr ''equivalent''] \<and>
   \<not> dict_eq swapped_two (default_label2id (example_env swapped_two) 2) \<and>
   PStr ` lower ` fst ` set swapped_two = set [PStr ''not_equivalent'', PStr ''equivalent''] \<and>
   self_label_to_id (fst (create_datasets (example_env swapped_two) mrpc_xp)) = Some None \<and>
   logged (fst (create_datasets (example_env swapped_two) mrpc_xp)) =
     [Info_sample 0, Info_sample 1, Info_sample 2] \<and>
   label_remap swapped_two [PStr ''not_equivalent'', PStr ''equivalent''] 2 =
     (Inr (Some [(PInt 0, 1), (PInt 1, 0)]), [])"
  unfolding mrpc_run
  using swapped_not_default [of swapped_two] swapped_same_names swapped_remap
  by (simp add: mrpc_args task_args_def)

section \<open>The preprocessing function\<close>

lemma rewrite_cells_ok:
  "set ls \<subseteq> fst ` set table \<Longrightarrow>
   rewrite_cells table ls = Inr (map (\<lambda>l. PInt (the (map_of table l))) ls)"
proof (induction ls)
  case Nil
  then show ?case by simp
next
  case (Cons l ls)
  then have "l \<in> fst ` set table" by simp
  then obtain v where "map_of table l = Some v"
    by (metis domD dom_map_of_conv_image_fst)
  with Cons show ?case by simp
qed

lemma rewrite_cells_missing:
  "\<not> set ls \<subseteq> fst ` set table \<Longrightarrow>
   \<exists>l \<in> set ls. l \<notin> fst ` set table \<and> rewrite_cells table ls = Inl (KeyError l)"
proof (induction ls)
  case Nil
  then show ?case by simp
next
  case (Cons l ls)
  show ?case
  proof (cases "map_of table l")
    case None
    then have "l \<notin> fst ` set table" by (simp add: map_of_eq_None_iff)
    with None show ?thesis by simp
  next
    case (Some v)
    then have "l \<in> fst ` set table" by (metis domI dom_map_of_conv_image_fst)
    with Cons.prems have "\<not> set ls \<subseteq> fst ` set table" by simp
    from Cons.IH [OF this] obtain l' where
      "l' \<in> set ls" "l' \<notin> fst ` set table" "rewrite_cells table ls = Inl (KeyError l')" by blast
    with Some show ?thesis by auto
  qed
qed

lemma preprocess_tokenized:
  assumes "examples sentence1_key = Some text_a"
      and "case sentence2_key of
             None \<Rightarrow> args = [text_a]
           | Some key_b \<Rightarrow> \<exists>text_b. examples key_b = Some text_b \<and> args = [text_a, text_b]"
      and "tokenizer args padding max_length True = Inr result"
  shows "preprocess_function tokenizer sentence1_key sentence2_key padding max_length label_to_id
           examples =
         (case label_to_id of
            None \<Rightarrow> Inr result
          | Some table \<Rightarrow>
              (case examples ''label'' of
                 None \<Rightarrow> Inr result
               | Some labels \<Rightarrow>
                   (case rewrite_labels table labels of
                      Inl e \<Rightarrow> Inl e
                    | Inr ls \<Rightarrow> Inr (result(''label'' \<mapsto> Cells ls)))))"
proof (cases sentence2_key)
  case None
  with assms show ?thesis by (simp add: preprocess_function_def)
next
  case (Some key_b)
  with assms(2) obtain text_b where "examples key_b = Some text_b" "args = [text_a, text_b]"
    by auto
  with assms(1,3) Some show ?thesis by (simp add: preprocess_function_def)
qed

text \<open>
  Claim C6. Let the batch have field A, and field B too when a second key is set; let \<open>args\<close>
  be field A alone when there is no second key and fields A and B otherwise, and let the
  tokenizer, called on \<open>args\<close> with the padding and maximal length of the padding policy and
  with truncation, return \<open>result\<close>. The policy is padding to the configured maximal length
  when \<^verbatim>\<open>pad_to_max_length\<close> is set, and no padding and no maximal length otherwise. If there
  is no table or the batch has no label field, the function returns \<open>result\<close> as it is: it
  writes no label. If there is a table and the batch has labels, all of them keys of the
  table, it returns \<open>result\<close> with the label field set to the labels mapped through the
  table; if some label is not a key of the table it raises KeyError for such a label.
\<close>

theorem preprocess_function_behaviour:
  assumes "examples sentence1_key = Some text_a"
      and "case sentence2_key of
             None \<Rightarrow> args = [text_a]
           | Some key_b \<Rightarrow> \<exists>text_b. examples key_b = Some text_b \<and> args = [text_a, text_b]"
      and "padding_strategy data_args = (padding, max_length)"
      and "tokenizer args padding max_length True = Inr result"
  shows "(padding, max_length) =
           (if pad_to_max_length data_args then (MaxLength, Some (max_seq_length data_args))
            else (NoPadding, None)) \<and>
         (label_to_id = None \<or> examples ''label'' = None \<longrightarrow>
            preprocess_function tokenizer sentence1_key sentence2_key padding max_length
              label_to_id examples = Inr result) \<and>
         (\<forall>table ls. label_to_id = Some table \<and> examples ''label'' = Some (Cells ls) \<and>
                     set ls \<subseteq> fst ` set table \<longrightarrow>
            preprocess_function tokenizer sentence1_key sentence2_key padding max_length
              label_to_id examples =
            Inr (result(''label'' \<mapsto> Cells (map (\<lambda>l. PInt (the (map_of table l))) ls)))) \<and>
         (\<forall>table ls. label_to_id = Some table \<and> examples ''label'' = Some (Cells ls) \<and>
                     \<not> set ls \<subseteq> fst ` set table \<longrightarrow>
            (\<exists>l \<in> set ls. l \<notin> fst ` set table \<and>
               preprocess_function tokenizer sentence1_key sentence2_key padding max_length
                 label_to_id examples = Inl (KeyError l)))"
proof (intro conjI impI allI)
  note P = preprocess_tokenized [where examples = examples and sentence1_key = sentence1_key
      and sentence2_key = sentence2_key and args = args and tokenizer = tokenizer
      and text_a = text_a and label_to_id = label_to_id, OF assms(1,2,4)]
  show "(padding, max_length) =
           (if pad_to_max_length data_args then (MaxLength, Some (max_seq_length data_args))
            else (NoPadding, None))"
    using assms(3) by (simp add: padding_strategy_def)
  {
    assume "label_to_id = None \<or> examples ''label'' = None"
    then show "preprocess_function tokenizer sentence1_key sentence2_key padding max_length
              label_to_id examples = Inr result"
      unfolding P by (auto split: option.splits)
  }
  {
    fix table ls
    assume a: "label_to_id = Some table \<and> examples ''label'' = Some (Cells ls) \<and>
               set ls \<subseteq> fst ` set table"
    then have "rewrite_cells table ls = Inr (map (\<lambda>l. PInt (the (map_of table l))) ls)"
      using rewrite_cells_ok by blast
    with a show "preprocess_function tokenizer sentence1_key sentence2_key padding max_length
              label_to_id examples =
            Inr (result(''label'' \<mapsto> Cells (map (\<lambda>l. PInt (the (map_of table l))) ls)))"
      unfolding P by simp
  }
  {
    fix table ls
    assume a: "label_to_id = Some table \<and> examples ''label'' = Some (Cells ls) \<and>
               \<not> set ls \<subseteq> fst ` set table"
    then obtain l where "l \<in> set ls" "l \<notin> fst ` set table"
        "rewrite_cells table ls = Inl (KeyError l)"
      using rewrite_cells_missing by blast
    with a show "\<exists>l \<in> set ls. l \<notin> fst ` set table \<and>
               preprocess_function tokenizer sentence1_key sentence2_key padding max_length
                 label_to_id examples = Inl (KeyError l)"
      unfolding P by auto
  }
qed

text \<open>
  The batch of the csv dataset, tokenized on its one text field, with its labels rewritten
  through the direct table.
\<close>

theorem preprocess_function_behaviour_witness:
  "preprocess_function example_tokenizer ''sentence'' None NoPadding None
     (Some [(PStr ''neg'', 0), (PStr ''pos'', 1)]) (columns sentiment_split) =
   Inr [''input_ids'' \<mapsto> Tokens [[101, 102], [101, 102], [101, 102]],
        ''label'' \<mapsto> Cells [PInt 1, PInt 0, PInt 1]]"
proof -
  let ?a = "Cells [PStr ''Good.'', PStr ''Bad.'', PStr ''Fine.'']"
  let ?table = "[(PStr ''neg'', 0), (PStr ''pos'', 1)]"
  let ?ls = "[PStr ''pos'', PStr ''neg'', PStr ''pos'']"
  let ?result = "[''input_ids'' \<mapsto> Tokens [[101, 102], [101, 102], [101, 102]]]"
  have 1: "columns sentiment_split ''sentence'' = Some ?a" by (simp add: sentiment_split_def)
  have 2: "case None of None \<Rightarrow> [?a] = [?a]
           | Some key_b \<Rightarrow> \<exists>text_b. columns sentiment_split key_b = Some text_b \<and>
                                  [?a] = [?a, text_b]" by simp
  have 3: "padding_strategy (file_args ''sentiment/train.csv'' ''sentiment/dev.csv'') =
             (NoPadding, None)" by (simp add: padding_strategy_def file_args_def)
  have 4: "example_tokenizer [?a] NoPadding None True = Inr ?result"
    by (simp add: example_tokenizer_def)
  note T = preprocess_function_behaviour [where examples = "columns sentiment_split"
      and sentence1_key = "''sentence''" and sentence2_key = None and text_a = ?a
      and args = "[?a]" and tokenizer = example_tokenizer and result = ?result
      and label_to_id = "Some ?table", OF 1 2 3 4,
      THEN conjunct2, THEN conjunct2, THEN conjunct1, THEN spec, THEN spec, THEN mp]
  have "preprocess_function example_tokenizer ''sentence'' None NoPadding None (Some ?table)
          (columns sentiment_split) =
        Inr (?result(''label'' \<mapsto> Cells (map (\<lambda>l. PInt (the (map_of ?table l))) ?ls)))"
    by (rule T) (simp add: sentiment_split_def)
  then show ?thesis by simp
qed

section \<open>The fallback metrics\<close>

lemma broadcast_vectors:
  "length xs = length ys \<Longrightarrow> broadcast f (A1 xs) (A1 ys) = Inr (A1 (map2 f xs ys))"
  by (simp add: broadcast_def compatible_def stretch_def)

lemma broadcast_scalar_single: "broadcast f (A0 x) (A1 [y]) = Inr (A1 [f x y])"
  by (simp add: broadcast_def compatible_def stretch_def)

lemma accuracy_vectors:
  "length xs = length ys \<Longrightarrow>
   accuracy np (A1 xs) (A1 ys) = Inr (np_mean_float32 np (map2 (\<lambda>x y. x = y) xs ys))"
  by (simp add: accuracy_def broadcast_vectors)

lemma mse_vectors:
  "length xs = length ys \<Longrightarrow>
   mse np (A1 xs) (A1 ys) =
     Inr (np_mean np (map2 (\<lambda>x y. np_square np (np_subtract np x y)) xs ys))"
  by (simp add: mse_def broadcast_vectors)

lemma mse_column:
  assumes "length rows = length ys" "ys \<noteq> []"
  shows "mse np (squeeze (A2 1 rows)) (A1 ys) =
           Inr (np_mean np (map2 (\<lambda>x y. np_square np (np_subtract np x y)) (map hd rows) ys))"
proof (cases "length rows = 1")
  case True
  then obtain row where r: "rows = [row]" by (cases rows) auto
  with assms obtain y where y: "ys = [y]" by (cases ys) auto
  show ?thesis by (simp add: r y mse_def broadcast_scalar_single)
next
  case False
  then have "squeeze (A2 1 rows) = A1 (map hd rows)" by simp
  then show ?thesis using mse_vectors [of "map hd rows" ys np] assms by simp
qed

lemma hits_count:
  "length (filter (\<lambda>h. h) (map2 (\<lambda>x y. x = y) xs ys)) =
     length (filter (\<lambda>(x, y). x = y) (zip xs ys))"
  by (induction xs ys rule: list_induct2') auto

lemma pow2_powi: "pow2 e = 2 powi e"
  by (simp add: pow2_def power_int_def field_simps)

lemma pow2_pos: "0 < pow2 e"
  by (simp add: pow2_powi)

lemma pow2_add: "pow2 (a + b) = pow2 a * pow2 b"
  by (simp add: pow2_powi power_int_add)

lemma pow2_zero: "pow2 0 = 1"
  by (simp add: pow2_def)

lemma round_half_even_near: "\<bar>of_int (round_half_even s) - s\<bar> \<le> 1 / 2"
proof -
  have "of_int \<lfloor>s\<rfloor> \<le> s" "s < of_int \<lfloor>s\<rfloor> + 1" by linarith+
  then show ?thesis by (auto simp add: round_half_even_def Let_def)
qed

lemma exponent_down_spec:
  "exponent_down n e0 a = e \<Longrightarrow>
   e0 - int n \<le> e \<and> e \<le> e0 \<and> (e < e0 \<longrightarrow> a < pow2 (e + 1)) \<and>
   (pow2 e \<le> a \<or> e = e0 - int n)"
proof (induction n arbitrary: e0)
  case 0
  then show ?case by simp
next
  case (Suc n)
  show ?case
  proof (cases "pow2 e0 \<le> a")
    case True
    with Suc.prems show ?thesis by simp
  next
    case False
    with Suc.prems have "exponent_down n (e0 - 1) a = e" by simp
    from Suc.IH [OF this] have
      ih: "e0 - 1 - int n \<le> e" "e \<le> e0 - 1" "e < e0 - 1 \<longrightarrow> a < pow2 (e + 1)"
          "pow2 e \<le> a \<or> e = e0 - 1 - int n" by simp_all
    have "a < pow2 (e + 1)" if "e < e0"
    proof (cases "e = e0 - 1")
      case True
      with False show ?thesis by simp
    next
      case False
      with ih(2,3) show ?thesis by simp
    qed
    with ih show ?thesis by auto
  qed
qed

lemma round_float32_below_one:
  assumes "pow2 (- 126) \<le> x" "x < 1"
  shows "\<exists>v. round_float32 x = Float v \<and> \<bar>v - x\<bar> \<le> x / 2 ^ 24"
proof -
  define e where "e = exponent_down 125 (- 1) x"
  from pow2_pos [of "- 126"] assms(1) have xpos: "0 < x" by linarith
  from exponent_down_spec [of 125 "- 1" x e] have
    s: "- 126 \<le> e" "e \<le> - 1" "e < - 1 \<longrightarrow> x < pow2 (e + 1)" "pow2 e \<le> x \<or> e = - 126"
    by (simp_all add: e_def)
  have lo: "pow2 e \<le> x" using s(4) assms(1) by auto
  have hi: "x < pow2 (e + 1)"
  proof (cases "e = - 1")
    case True
    then show ?thesis using assms(2) by (simp add: pow2_zero)
  next
    case False
    with s(2,3) show ?thesis by simp
  qed
  define m where "m = round_half_even (x * pow2 (23 - e))"
  define v where "v = of_int m * pow2 (e - 23)"
  have inv: "pow2 (23 - e) * pow2 (e - 23) = 1"
    using pow2_add [of "23 - e" "e - 23"] by (simp add: pow2_zero)
  have "v - x = (of_int m - x * pow2 (23 - e)) * pow2 (e - 23)"
    using inv by (simp add: v_def algebra_simps)
  then have "\<bar>v - x\<bar> = \<bar>of_int m - x * pow2 (23 - e)\<bar> * pow2 (e - 23)"
    using pow2_pos [of "e - 23"] by (simp add: abs_mult)
  also have "\<dots> \<le> (1 / 2) * pow2 (e - 23)"
    using round_half_even_near [of "x * pow2 (23 - e)"] pow2_pos [of "e - 23"]
    unfolding m_def by (intro mult_right_mono) simp_all
  also have "\<dots> = pow2 e / 2 ^ 24"
    using pow2_add [of e "- 23"] by (simp add: pow2_def [of "- 23"])
  also have "\<dots> \<le> x / 2 ^ 24" using lo by (simp add: divide_right_mono)
  finally have near: "\<bar>v - x\<bar> \<le> x / 2 ^ 24" .
  have "x / 2 ^ 24 \<le> x" using xpos by (simp add: field_simps)
  with near assms(2) have "v < 2" by linarith
  moreover have "(2::real) \<le> pow2 128" by (simp add: pow2_def)
  ultimately have small: "\<not> pow2 128 \<le> v" by linarith
  have "binary_exponent 127 \<bar>x\<bar> = e"
    using xpos assms(2) by (simp add: binary_exponent_def e_def)
  then have "round_float32 x = Float v"
    using xpos small by (simp add: round_float32_def ieee_round_def Let_def v_def m_def)
  with near show ?thesis by blast
qed

lemma round_float32_zero: "round_float32 0 = Float 0"
  by code_simp

lemma round_float32_one: "round_float32 1 = Float 1"
  by code_simp

lemma round_float32_fraction:
  assumes "k \<le> n" "0 < n" "n \<le> 2 ^ 24"
  shows "\<exists>v. round_float32 (real k / real n) = Float v \<and>
             \<bar>v - real k / real n\<bar> \<le> (real k / real n) / 2 ^ 24"
proof -
  consider "k = 0" | "k = n" | "0 < k" "k < n" using assms(1) by linarith
  then show ?thesis
  proof cases
    case 1
    then show ?thesis by (simp add: round_float32_zero)
  next
    case 2
    with assms(2) show ?thesis by (simp add: round_float32_one)
  next
    case 3
    have n: "real n \<le> 2 ^ 24" using assms(3) by (metis of_nat_le_iff of_nat_numeral of_nat_power)
    have "1 / 2 ^ 24 \<le> 1 / real n" using assms(2) n by (simp add: frac_le)
    also have "\<dots> \<le> real k / real n" using 3(1) assms(2) by (simp add: divide_right_mono)
    finally have a: "1 / 2 ^ 24 \<le> real k / real n" .
    have "pow2 (- 126) \<le> (1 / 2 ^ 24 :: real)" by (simp add: pow2_def)
    with a have lo: "pow2 (- 126) \<le> real k / real n" by linarith
    have hi: "real k / real n < 1" using 3(2) assms(2) by simp
    from round_float32_below_one [OF lo hi] show ?thesis .
  qed
qed

text \<open>
  Claim C7. With no task name, predictions of \<open>n\<close> rows (as an array or as the first element
  of a tuple) and \<open>n \<ge> 1\<close> references: when \<^verbatim>\<open>is_regression\<close> is set and the predictions
  have one column, \<open>compute_metrics\<close> returns under the key mse numpy's mean of the squares
  of the differences of the column and the references; when it is not set, it returns
  under the key accuracy numpy's float32 mean of the Boolean array that tells, row by row,
  whether the index of the first maximum equals the reference. When that mean is the one of
  IEEE 754 and there are at most \<open>2^24\<close> references, the accuracy is the fraction of equal
  predictions rounded to float32: a finite number within a relative error \<open>2^-24\<close> of the
  fraction.
\<close>

theorem compute_metrics_no_task:
  assumes "task_name (self_data_args self) = None"
      and "self_is_regression self = Some reg"
      and "predictions p = Array (A2 c rows) \<or> predictions p = Tuple (A2 c rows # rest)"
      and "label_ids p = A1 refs"
      and "length rows = length refs" and "refs \<noteq> []"
      and "if reg then c = 1 else 0 < c"
  shows "compute_metrics np metric self p =
           (if reg
            then Inr [(''mse'',
                       np_mean np (map2 (\<lambda>x y. np_square np (np_subtract np x y))
                                     (map hd rows) refs))]
            else Inr [(''accuracy'',
                       np_mean_float32 np
                         (map2 (\<lambda>x y. x = y) (map (\<lambda>row. real (argmax_row row)) rows) refs))]) \<and>
         (\<not> reg \<and> float32_mean_of_hits np \<and> length refs \<le> 2 ^ 24 \<longrightarrow>
            compute_metrics np metric self p =
              Inr [(''accuracy'',
                    round_float32
                      (fraction_equal (map (\<lambda>row. real (argmax_row row)) rows) refs))] \<and>
            (\<exists>v. round_float32
                   (fraction_equal (map (\<lambda>row. real (argmax_row row)) rows) refs) = Float v \<and>
                 \<bar>v - fraction_equal (map (\<lambda>row. real (argmax_row row)) rows) refs\<bar> \<le>
                   fraction_equal (map (\<lambda>row. real (argmax_row row)) rows) refs / 2 ^ 24))"
proof -
  let ?preds = "map (\<lambda>row. real (argmax_row row)) rows"
  let ?hits = "map2 (\<lambda>x y. x = y) ?preds refs"
  have 1: "compute_metrics np metric self p =
           (if reg
            then Inr [(''mse'',
                       np_mean np (map2 (\<lambda>x y. np_square np (np_subtract np x y))
                                     (map hd rows) refs))]
            else Inr [(''accuracy'', np_mean_float32 np ?hits)])"
  proof (cases reg)
    case True
    with assms(7) have c: "c = 1" by simp
    from assms(3) show ?thesis
      using True assms(1,2,4) mse_column [OF assms(5,6), of np]
      by (auto simp add: compute_metrics_def c)
  next
    case False
    with assms(7) have c: "c \<noteq> 0" by simp
    have "accuracy np (A1 ?preds) (A1 refs) = Inr (np_mean_float32 np ?hits)"
      using accuracy_vectors [of ?preds refs np] assms(5) by simp
    with assms(3) show ?thesis
      using False assms(1,2,4) c by (auto simp add: compute_metrics_def)
  qed
  have 2: "compute_metrics np metric self p =
             Inr [(''accuracy'', round_float32 (fraction_equal ?preds refs))]"
    if a: "\<not> reg \<and> float32_mean_of_hits np \<and> length refs \<le> 2 ^ 24"
  proof -
    have len: "length ?hits = length refs" using assms(5) by simp
    then have ne: "?hits \<noteq> []" using assms(6) by auto
    have "np_mean_float32 np ?hits =
        round_float32 (real (length (filter (\<lambda>h. h) ?hits)) / real (length ?hits))"
      using a ne len unfolding float32_mean_of_hits_def by simp
    also have "\<dots> = round_float32 (fraction_equal ?preds refs)"
      unfolding len hits_count fraction_equal_def ..
    finally show ?thesis using 1 a by simp
  qed
  have 3: "\<exists>v. round_float32 (fraction_equal ?preds refs) = Float v \<and>
               \<bar>v - fraction_equal ?preds refs\<bar> \<le> fraction_equal ?preds refs / 2 ^ 24"
    if a: "length refs \<le> 2 ^ 24"
  proof -
    have "length (filter (\<lambda>(x, y). x = y) (zip ?preds refs)) \<le> length (zip ?preds refs)"
      by (rule length_filter_le)
    then have k: "length (filter (\<lambda>(x, y). x = y) (zip ?preds refs)) \<le> length refs"
      by simp
    have n: "0 < length refs" using assms(6) by simp
    from round_float32_fraction [OF k n a] show ?thesis unfolding fraction_equal_def .
  qed
  from 1 2 3 show ?thesis by blast
qed

lemma round_two_thirds: "round_float32 (2 / 3) = Float (11184811 / 16777216)"
  by code_simp

lemma ieee_float32_mean_of_hits: "float32_mean_of_hits ieee_numpy"
  by (simp add: float32_mean_of_hits_def ieee_numpy_def)

lemma logits_fraction:
  "fraction_equal (map (\<lambda>row. real (argmax_row row)) [[0, 1], [1, 0], [0, 1]]) [1, 1, 1] = 2 / 3"
  by (simp add: fraction_equal_def)

lemma scores_mse:
  "np_mean ieee_numpy
     (map2 (\<lambda>x y. np_square ieee_numpy (np_subtract ieee_numpy x y)) (map hd [[1 / 2], [2]]) [1, 1]) =
   Float (5 / 8)"
  unfolding ieee_numpy_def by code_simp

text \<open>
  Rows with maxima at 1, 0, 1 against the references 1, 1, 1: the accuracy is the float32
  nearest to 2/3, which is 11184811/16777216 = 0.6666666865348816. Scores 0.5 and 2 against
  the references 1, 1: the mean squared error is 0.625.
\<close>

theorem compute_metrics_no_task_witness:
  "compute_metrics ieee_numpy unloaded_metric classifier_xp logits_example =
     Inr [(''accuracy'', Float (11184811 / 16777216))] \<and>
   \<bar>11184811 / 16777216 - 2 / 3\<bar> < (1 / 2 ^ 25 :: real) \<and>
   compute_metrics ieee_numpy unloaded_metric regressor_xp scores_example =
     Inr [(''mse'', Float (5 / 8))]"
proof -
  have "compute_metrics ieee_numpy unloaded_metric classifier_xp logits_example =
      Inr [(''accuracy'',
            round_float32
              (fraction_equal (map (\<lambda>row. real (argmax_row row)) [[0, 1], [1, 0], [0, 1]])
                 [1, 1, 1]))]"
    by (rule compute_metrics_no_task [where c = 2 and rest = "[]" and reg = False,
          THEN conjunct2, THEN mp, THEN conjunct1])
       (simp_all add: classifier_xp_def logits_example_def sentiment_task
          ieee_float32_mean_of_hits)
  then have a: "compute_metrics ieee_numpy unloaded_metric classifier_xp logits_example =
     Inr [(''accuracy'', Float (11184811 / 16777216))]"
    unfolding logits_fraction round_two_thirds .
  have "compute_metrics ieee_numpy unloaded_metric regressor_xp scores_example =
      (if True
       then Inr [(''mse'',
                  np_mean ieee_numpy
                    (map2 (\<lambda>x y. np_square ieee_numpy (np_subtract ieee_numpy x y))
                       (map hd [[1 / 2], [2]]) [1, 1]))]
       else Inr [(''accuracy'',
                  np_mean_float32 ieee_numpy
                    (map2 (\<lambda>x y. x = y) (map (\<lambda>row. real (argmax_row row)) [[1 / 2], [2]])
                       [1, 1]))])"
    by (rule compute_metrics_no_task [where c = 1 and rest = "[]" and reg = True,
          THEN conjunct1])
       (simp_all add: regressor_xp_def scores_example_def score_task)
  then have b: "compute_metrics ieee_numpy unloaded_metric regressor_xp scores_example =
     Inr [(''mse'', Float (5 / 8))]"
    unfolding scores_mse by simp
  from a b show ?thesis by simp
qed

end
